theory Spec2Isabelle
  imports Complex_Main "HOL-Library.AList"
begin

section \<open>Cell values, exceptions and library functions\<close>

text \<open>
  A cell of a pandas data frame holds a Python scalar. A float is either a finite value
  (the exact rational a double denotes), an infinity or NaN. The rules of
  \<^verbatim>\<open>corporate_loan_rules.py\<close> also write the results of \<^verbatim>\<open>re.match\<close> into
  cells: a match object (kept with the text it matched) or \<^verbatim>\<open>None\<close>.
\<close>

datatype pyfloat = Fin rat | PosInf | NegInf | NaN

datatype pyval =
    PStr string
  | PInt int
  | PFloat pyfloat
  | PBool bool
  | PNone
  | PMatch string

datatype exn = KeyError | AttributeError | TypeError | ValueError | NameError

text \<open>
  Functions of Python and pandas that the repository calls and does not define are
  parameters of the model: the printing of floats and of match objects by \<^verbatim>\<open>str\<close>,
  the parsing done by \<^verbatim>\<open>float\<close> (\<open>None\<close> stands for the exception it raises),
  the column-wise \<^verbatim>\<open>pd.to_datetime(col, errors='coerce').notna()\<close> (given the whole
  column and a position, since pandas infers one format for the column), and the date
  part of \<^verbatim>\<open>datetime.today()\<close> as (year, month, day).
\<close>

record env =
  str_of_float :: "pyfloat \<Rightarrow> string"
  str_of_match :: "string \<Rightarrow> string"
  float_of_str :: "string \<Rightarrow> pyfloat option"
  float_of_int :: "int \<Rightarrow> pyfloat option"
  to_datetime_notna :: "pyval list \<Rightarrow> nat \<Rightarrow> bool"
  today :: "nat \<times> nat \<times> nat"

subsection \<open>Strings\<close>

text \<open>
  A character is read as the code point of its number, so the strings of the model are
  the Python strings over code points below 256.
\<close>

definition code :: "char \<Rightarrow> nat" where
  "code c = of_char c"

function str_nat :: "nat \<Rightarrow> string" where
  "str_nat n = (if n < 10 then [char_of (48 + n)]
                else str_nat (n div 10) @ [char_of (48 + n mod 10)])"
  by pat_completeness auto
termination
  by (relation "measure id") auto

declare str_nat.simps [simp del]

definition str_int :: "int \<Rightarrow> string" where
  "str_int i = (if i < 0 then CHR ''-'' # str_nat (nat (- i)) else str_nat (nat i))"

fun py_str :: "env \<Rightarrow> pyval \<Rightarrow> string" where
  "py_str E (PStr s) = s"
| "py_str E (PInt i) = str_int i"
| "py_str E (PFloat f) = str_of_float E f"
| "py_str E (PBool b) = (if b then ''True'' else ''False'')"
| "py_str E PNone = ''None''"
| "py_str E (PMatch s) = str_of_match E s"

text \<open>\<^verbatim>\<open>str.strip()\<close> removes the characters Python counts as whitespace.\<close>

definition is_space :: "char \<Rightarrow> bool" where
  "is_space c = (let n = code c in
     (9 \<le> n \<and> n \<le> 13) \<or> (28 \<le> n \<and> n \<le> 32) \<or> n = 133 \<or> n = 160)"

definition py_strip :: "string \<Rightarrow> string" where
  "py_strip s = rev (dropWhile is_space (rev (dropWhile is_space s)))"

text \<open>
  \<^verbatim>\<open>str.upper()\<close>. Three characters below 256 have an upper case outside that range
  or of two letters (code points 181, 223, 255); they are left as they are, which no
  comparison of the rules can tell from the Python result: the rules compare the result
  with digits, \<^verbatim>\<open>-\<close>, \<^verbatim>\<open>NA\<close> and \<^verbatim>\<open>NONE\<close> only.
\<close>

definition upper_char :: "char \<Rightarrow> char" where
  "upper_char c = (let n = code c in
     if (97 \<le> n \<and> n \<le> 122) \<or> (224 \<le> n \<and> n \<le> 254 \<and> n \<noteq> 247)
     then char_of (n - 32) else c)"

definition py_upper :: "string \<Rightarrow> string" where
  "py_upper s = map upper_char s"

text \<open>\<^verbatim>\<open>str.isdigit()\<close>: non-empty, every character a digit (superscripts included).\<close>

definition is_digit_char :: "char \<Rightarrow> bool" where
  "is_digit_char c = (let n = code c in
     (48 \<le> n \<and> n \<le> 57) \<or> n = 178 \<or> n = 179 \<or> n = 185)"

definition py_isdigit :: "string \<Rightarrow> bool" where
  "py_isdigit s = (s \<noteq> [] \<and> list_all is_digit_char s)"

subsection \<open>Regular expressions\<close>

text \<open>
  The patterns of the rules use character classes, concatenation, alternation and
  repetition only. A pattern is matched by derivatives; \<^verbatim>\<open>re.match\<close> with a pattern
  \<^verbatim>\<open>^R$\<close> succeeds when the whole string is in the language of \<^verbatim>\<open>R\<close>, or when the
  string ends with a line feed and the rest is (\<^verbatim>\<open>$\<close> also matches before a final
  line feed).
\<close>

datatype regex =
    Nul
  | Eps
  | Cls "char \<Rightarrow> bool"
  | Seq regex regex
  | Alt regex regex
  | Star regex

fun nullable :: "regex \<Rightarrow> bool" where
  "nullable Nul = False"
| "nullable Eps = True"
| "nullable (Cls p) = False"
| "nullable (Seq r s) = (nullable r \<and> nullable s)"
| "nullable (Alt r s) = (nullable r \<or> nullable s)"
| "nullable (Star r) = True"

fun deriv :: "char \<Rightarrow> regex \<Rightarrow> regex" where
  "deriv c Nul = Nul"
| "deriv c Eps = Nul"
| "deriv c (Cls p) = (if p c then Eps else Nul)"
| "deriv c (Seq r s) =
     (if nullable r then Alt (Seq (deriv c r) s) (deriv c s) else Seq (deriv c r) s)"
| "deriv c (Alt r s) = Alt (deriv c r) (deriv c s)"
| "deriv c (Star r) = Seq (deriv c r) (Star r)"

fun fullmatch :: "regex \<Rightarrow> string \<Rightarrow> bool" where
  "fullmatch r [] = nullable r"
| "fullmatch r (c # cs) = fullmatch (deriv c r) cs"

fun rep :: "nat \<Rightarrow> regex \<Rightarrow> regex" where
  "rep 0 r = Eps"
| "rep (Suc n) r = Seq r (rep n r)"

definition opt :: "regex \<Rightarrow> regex" where
  "opt r = Alt r Eps"

definition plus :: "regex \<Rightarrow> regex" where
  "plus r = Seq r (Star r)"

text \<open>\<^verbatim>\<open>R{m,n}\<close> is \<open>rep_range m n R\<close>.\<close>

definition rep_range :: "nat \<Rightarrow> nat \<Rightarrow> regex \<Rightarrow> regex" where
  "rep_range m n r = Seq (rep m r) (rep (n - m) (opt r))"

definition lit :: "string \<Rightarrow> regex" where
  "lit s = foldr (\<lambda>c r. Seq (Cls (\<lambda>d. d = c)) r) s Eps"

definition re_match :: "regex \<Rightarrow> string \<Rightarrow> string option" where
  "re_match r s =
     (if fullmatch r s then Some s
      else if s \<noteq> [] \<and> last s = CHR 0x0A \<and> fullmatch r (butlast s) then Some (butlast s)
      else None)"

definition matches :: "regex \<Rightarrow> string \<Rightarrow> bool" where
  "matches r s = (re_match r s \<noteq> None)"

text \<open>The character classes of the patterns.\<close>

definition digit :: "char \<Rightarrow> bool" where
  "digit c = (48 \<le> code c \<and> code c \<le> 57)"

definition upper_AZ :: "char \<Rightarrow> bool" where
  "upper_AZ c = (65 \<le> code c \<and> code c \<le> 90)"

definition lower_az :: "char \<Rightarrow> bool" where
  "lower_az c = (97 \<le> code c \<and> code c \<le> 122)"

text \<open>\<^verbatim>\<open>[^\r\n,\x00-\x1F\x7F]\<close>\<close>

definition id_char :: "char \<Rightarrow> bool" where
  "id_char c = (\<not> (code c = 13 \<or> code c = 10 \<or> code c = 44 \<or> code c \<le> 31 \<or> code c = 127))"

text \<open>\<^verbatim>\<open>[^\r\n\x00-\x1F\x7F]\<close>\<close>

definition id_list_char :: "char \<Rightarrow> bool" where
  "id_list_char c = (\<not> (code c = 13 \<or> code c = 10 \<or> code c \<le> 31 \<or> code c = 127))"

text \<open>\<^verbatim>\<open>[^,\r\n\f]\<close>\<close>

definition snc_char :: "char \<Rightarrow> bool" where
  "snc_char c = (\<not> (code c = 44 \<or> code c = 13 \<or> code c = 10 \<or> code c = 12))"

subsection \<open>Dates\<close>

text \<open>
  \<^verbatim>\<open>datetime.strptime(s, "%Y-%m-%d")\<close>: four digits, a month written \<^verbatim>\<open>1[0-2]|0[1-9]|[1-9]\<close>,
  a day written \<^verbatim>\<open>3[01]|[12]\d|0[1-9]|[1-9]| [1-9]\<close>, nothing left over, and a date that
  exists (years 1 to 9999). \<open>None\<close> stands for the \<^verbatim>\<open>ValueError\<close>.
\<close>

definition digit_val :: "char \<Rightarrow> nat" where
  "digit_val c = code c - 48"

definition nat_of_digits :: "string \<Rightarrow> nat" where
  "nat_of_digits s = foldl (\<lambda>n c. 10 * n + digit_val c) 0 s"

definition is_leap :: "nat \<Rightarrow> bool" where
  "is_leap y = (y mod 4 = 0 \<and> (y mod 100 \<noteq> 0 \<or> y mod 400 = 0))"

definition days_in_month :: "nat \<Rightarrow> nat \<Rightarrow> nat" where
  "days_in_month y m =
     (if m = 2 then (if is_leap y then 29 else 28)
      else if m = 4 \<or> m = 6 \<or> m = 9 \<or> m = 11 then 30 else 31)"

definition month_field :: "string \<Rightarrow> nat option" where
  "month_field s =
     (if list_all digit s \<and> (length s = 2 \<or> length s = 1)
         \<and> 1 \<le> nat_of_digits s \<and> nat_of_digits s \<le> 12
      then Some (nat_of_digits s) else None)"

definition day_field :: "string \<Rightarrow> nat option" where
  "day_field s =
     (if list_all digit s \<and> (length s = 2 \<or> length s = 1)
         \<and> 1 \<le> nat_of_digits s \<and> nat_of_digits s \<le> 31
      then Some (nat_of_digits s)
      else if length s = 2 \<and> hd s = CHR '' '' \<and> digit (s ! 1) \<and> 1 \<le> digit_val (s ! 1)
      then Some (digit_val (s ! 1))
      else None)"

definition strptime_ymd :: "string \<Rightarrow> (nat \<times> nat \<times> nat) option" where
  "strptime_ymd s =
     (let ys = take 4 s; rest = drop 4 s in
      if length ys = 4 \<and> list_all digit ys \<and> rest \<noteq> [] \<and> hd rest = CHR ''-'' then
        (let ms = takeWhile (\<lambda>c. c \<noteq> CHR ''-'') (tl rest);
             after = dropWhile (\<lambda>c. c \<noteq> CHR ''-'') (tl rest) in
         if after \<noteq> [] then
           (case (month_field ms, day_field (tl after)) of
              (Some m, Some d) \<Rightarrow>
                (if 1 \<le> nat_of_digits ys \<and> d \<le> days_in_month (nat_of_digits ys) m
                 then Some (nat_of_digits ys, m, d) else None)
            | _ \<Rightarrow> None)
         else None)
      else None)"

text \<open>A date at midnight is not after \<^verbatim>\<open>datetime.today()\<close> iff its day is not after today's.\<close>

definition date_le :: "nat \<times> nat \<times> nat \<Rightarrow> nat \<times> nat \<times> nat \<Rightarrow> bool" where
  "date_le a b =
     (case (a, b) of ((y1, m1, d1), (y2, m2, d2)) \<Rightarrow>
        y1 < y2 \<or> (y1 = y2 \<and> (m1 < m2 \<or> (m1 = m2 \<and> d1 \<le> d2))))"


section \<open>Data frames\<close>

text \<open>
  A data frame is its number of rows (the index) and its columns in order, each a name
  with one value per row. \<^verbatim>\<open>df[c]\<close> raises \<^verbatim>\<open>KeyError\<close> for a column that is
  absent; \<^verbatim>\<open>df[c] = values\<close> replaces the column where it stands, or appends it.
\<close>

record frame =
  nrows :: nat
  columns :: "(string \<times> pyval list) list"

type_synonym row = "string \<rightharpoonup> pyval"

type_synonym rule = "frame \<Rightarrow> exn + frame"

definition colnames :: "frame \<Rightarrow> string list" where
  "colnames df = map fst (columns df)"

definition column :: "frame \<Rightarrow> string \<Rightarrow> pyval list option" where
  "column df c = map_of (columns df) c"

definition wf_frame :: "frame \<Rightarrow> bool" where
  "wf_frame df = (distinct (map fst (columns df))
     \<and> list_all (\<lambda>kv. length (snd kv) = nrows df) (columns df))"

definition getitem :: "string \<Rightarrow> frame \<Rightarrow> exn + pyval list" where
  "getitem c df = (case map_of (columns df) c of None \<Rightarrow> Inl KeyError | Some vs \<Rightarrow> Inr vs)"

definition setitem :: "string \<Rightarrow> pyval list \<Rightarrow> frame \<Rightarrow> frame" where
  "setitem c vs df = df\<lparr>columns := AList.update c vs (columns df)\<rparr>"

text \<open>
  \<^verbatim>\<open>df[out] = g(df[src])\<close> for an operation \<open>g\<close> on a whole column; every rule but
  two has this shape, with \<open>g\<close> working value by value (\<^verbatim>\<open>.apply(f)\<close>,
  \<^verbatim>\<open>.astype(str).str.match(p)\<close>, \<^verbatim>\<open>.isin(l)\<close>).
\<close>

definition assign_from :: "string \<Rightarrow> string \<Rightarrow> (pyval list \<Rightarrow> pyval list) \<Rightarrow> rule" where
  "assign_from src out g df =
     (case getitem src df of Inl e \<Rightarrow> Inl e | Inr col \<Rightarrow> Inr (setitem out (g col) df))"

text \<open>
  \<^verbatim>\<open>df.apply(f, axis=1)\<close> calls \<open>f\<close> on every row and stops at the first exception.
  On a frame with no rows or no columns pandas (version 2) calls \<open>f\<close> once on a row
  of NaN over the frame's columns instead: when that call raises, the result is a copy
  of the frame; when it returns, the result is an empty series for a frame with no rows,
  and the value of \<open>f\<close> on an empty row for each row otherwise.
\<close>

datatype applied = Series "pyval list" | FrameCopy

definition row_at :: "frame \<Rightarrow> nat \<Rightarrow> row" where
  "row_at df i = map_of (map (\<lambda>kv. (fst kv, snd kv ! i)) (columns df))"

definition probe_row :: "frame \<Rightarrow> row" where
  "probe_row df = map_of (map (\<lambda>kv. (fst kv, PFloat NaN)) (columns df))"

fun collect :: "(exn + 'a) list \<Rightarrow> exn + 'a list" where
  "collect [] = Inr []"
| "collect (x # xs) =
     (case x of Inl e \<Rightarrow> Inl e
      | Inr v \<Rightarrow> (case collect xs of Inl e \<Rightarrow> Inl e | Inr vs \<Rightarrow> Inr (v # vs)))"

definition apply_axis1 :: "(row \<Rightarrow> exn + pyval) \<Rightarrow> frame \<Rightarrow> exn + applied" where
  "apply_axis1 f df =
     (if nrows df = 0 \<or> columns df = [] then
        (case f (probe_row df) of
           Inl e \<Rightarrow> Inr FrameCopy
         | Inr v \<Rightarrow>
             (if nrows df = 0 then Inr (Series [])
              else (case f Map.empty of
                      Inl e \<Rightarrow> Inl e
                    | Inr r \<Rightarrow> Inr (Series (replicate (nrows df) r)))))
      else (case collect (map (\<lambda>i. f (row_at df i)) [0..<nrows df]) of
              Inl e \<Rightarrow> Inl e
            | Inr vs \<Rightarrow> Inr (Series vs)))"

text \<open>
  \<^verbatim>\<open>df[out] = result\<close> for the result of \<^verbatim>\<open>df.apply\<close>: a series is stored; a
  frame is accepted only when it has exactly one column (which then has no rows), and is
  a \<^verbatim>\<open>ValueError\<close> otherwise.
\<close>

definition assign_applied :: "string \<Rightarrow> (row \<Rightarrow> exn + pyval) \<Rightarrow> rule" where
  "assign_applied out f df =
     (case apply_axis1 f df of
        Inl e \<Rightarrow> Inl e
      | Inr (Series vs) \<Rightarrow> Inr (setitem out vs df)
      | Inr FrameCopy \<Rightarrow>
          (if length (columns df) = 1 then Inr (setitem out (snd (hd (columns df))) df)
           else Inl ValueError))"

section \<open>Operations on values\<close>

text \<open>\<^verbatim>\<open>bool(x)\<close>.\<close>

fun truthy :: "pyval \<Rightarrow> bool" where
  "truthy (PStr s) = (s \<noteq> [])"
| "truthy (PInt i) = (i \<noteq> 0)"
| "truthy (PFloat f) = (f \<noteq> Fin 0)"
| "truthy (PBool b) = b"
| "truthy PNone = False"
| "truthy (PMatch s) = True"

text \<open>\<^verbatim>\<open>x == k\<close> for an integer \<open>k\<close>, as \<^verbatim>\<open>isin\<close> decides it.\<close>

fun eq_int :: "pyval \<Rightarrow> int \<Rightarrow> bool" where
  "eq_int (PInt i) k = (i = k)"
| "eq_int (PFloat (Fin r)) k = (r = of_int k)"
| "eq_int (PBool b) k = ((if b then 1 else 0) = k)"
| "eq_int _ k = False"

text \<open>\<^verbatim>\<open>x > k\<close> for an integer \<open>k\<close>; a \<^verbatim>\<open>TypeError\<close> when \<open>x\<close> is no number.\<close>

fun gt_int :: "pyval \<Rightarrow> int \<Rightarrow> exn + bool" where
  "gt_int (PInt i) k = Inr (k < i)"
| "gt_int (PFloat (Fin r)) k = Inr (of_int k < r)"
| "gt_int (PFloat PosInf) k = Inr True"
| "gt_int (PFloat NegInf) k = Inr False"
| "gt_int (PFloat NaN) k = Inr False"
| "gt_int (PBool b) k = Inr (k < (if b then 1 else 0))"
| "gt_int _ k = Inl TypeError"

text \<open>\<^verbatim>\<open>isinstance(x, (int, float)) and x >= 0\<close>; a bool is an int.\<close>

fun number_ge0 :: "pyval \<Rightarrow> bool" where
  "number_ge0 (PInt i) = (0 \<le> i)"
| "number_ge0 (PFloat (Fin r)) = (0 \<le> r)"
| "number_ge0 (PFloat PosInf) = True"
| "number_ge0 (PFloat f) = False"
| "number_ge0 (PBool b) = True"
| "number_ge0 _ = False"

text \<open>\<^verbatim>\<open>isinstance(x, int) and x >= 0\<close>\<close>

fun int_ge0 :: "pyval \<Rightarrow> bool" where
  "int_ge0 (PInt i) = (0 \<le> i)"
| "int_ge0 (PBool b) = True"
| "int_ge0 _ = False"

text \<open>\<^verbatim>\<open>float(x)\<close>; \<open>None\<close> for the exception it raises.\<close>

fun py_float :: "env \<Rightarrow> pyval \<Rightarrow> pyfloat option" where
  "py_float E (PStr s) = float_of_str E s"
| "py_float E (PInt i) = float_of_int E i"
| "py_float E (PFloat f) = Some f"
| "py_float E (PBool b) = Some (Fin (if b then 1 else 0))"
| "py_float E PNone = None"
| "py_float E (PMatch s) = None"

text \<open>\<^verbatim>\<open>0 <= v <= 1\<close>\<close>

fun in_unit :: "pyfloat \<Rightarrow> bool" where
  "in_unit (Fin r) = (0 \<le> r \<and> r \<le> 1)"
| "in_unit _ = False"

text \<open>\<^verbatim>\<open>[str(i) for i in range(a, b)]\<close>\<close>

definition str_range :: "nat \<Rightarrow> nat \<Rightarrow> string list" where
  "str_range a b = map (\<lambda>i. str_int (int i)) [a..<b]"

text \<open>The value of \<^verbatim>\<open>re.match(p, s)\<close>: a match object or \<^verbatim>\<open>None\<close>.\<close>

definition match_value :: "regex \<Rightarrow> string \<Rightarrow> pyval" where
  "match_value r s = (case re_match r s of Some m \<Rightarrow> PMatch m | None \<Rightarrow> PNone)"


section \<open>The rules of \<^verbatim>\<open>corporate_loan_rules.py\<close>\<close>

subsection \<open>Patterns\<close>

text \<open>\<^verbatim>\<open>^[^\r\n,\x00-\x1F\x7F]+$\<close>\<close>

definition pat_id :: regex where
  "pat_id = plus (Cls id_char)"

text \<open>\<^verbatim>\<open>^(\d{9}|\d{2}-\d{7}|NA)$\<close>\<close>

definition pat_tin :: regex where
  "pat_tin = Alt (rep 9 (Cls digit))
               (Alt (Seq (rep 2 (Cls digit)) (Seq (lit ''-'') (rep 7 (Cls digit)))) (lit ''NA''))"

text \<open>\<^verbatim>\<open>^[A-Za-z0-9]{6}$|^NA$\<close>\<close>

definition alnum :: "char \<Rightarrow> bool" where
  "alnum c = (upper_AZ c \<or> lower_az c \<or> digit c)"

definition pat_cusip :: regex where
  "pat_cusip = Alt (rep 6 (Cls alnum)) (lit ''NA'')"

text \<open>\<^verbatim>\<open>^(\d{3}-\d{2}-\d{4}|\d{9}|NA)$\<close>\<close>

definition pat_guarantor_tin :: regex where
  "pat_guarantor_tin =
     Alt (Seq (rep 3 (Cls digit)) (Seq (lit ''-'') (Seq (rep 2 (Cls digit))
            (Seq (lit ''-'') (rep 4 (Cls digit))))))
       (Alt (rep 9 (Cls digit)) (lit ''NA''))"

text \<open>\<^verbatim>\<open>^\d{2}-\d{2}-\d{4}$\<close>\<close>

definition pat_renewal :: regex where
  "pat_renewal =
     Seq (rep 2 (Cls digit)) (Seq (lit ''-'') (Seq (rep 2 (Cls digit))
       (Seq (lit ''-'') (rep 4 (Cls digit)))))"

text \<open>\<^verbatim>\<open>^[A-Z]\.[A-Z]\.\d$\<close>\<close>

definition pat_schedule_shift :: regex where
  "pat_schedule_shift =
     Seq (Cls upper_AZ) (Seq (lit ''.'') (Seq (Cls upper_AZ) (Seq (lit ''.'') (Cls digit))))"

text \<open>\<^verbatim>\<open>^\d+(\.\d{1,4})?$\<close>\<close>

definition pat_target_hold :: regex where
  "pat_target_hold = Seq (plus (Cls digit)) (opt (Seq (lit ''.'') (rep_range 1 4 (Cls digit))))"

text \<open>\<^verbatim>\<open>^-?\d+$\<close>\<close>

definition pat_integer :: regex where
  "pat_integer = Seq (opt (lit ''-'')) (plus (Cls digit))"

text \<open>\<^verbatim>\<open>^[A-Z0-9]{20}$\<close>\<close>

definition pat_lei :: regex where
  "pat_lei = rep 20 (Cls (\<lambda>c. upper_AZ c \<or> digit c))"

subsection \<open>The operations on one value\<close>

text \<open>\<^verbatim>\<open>.astype(str).str.match(pattern)\<close>\<close>

definition str_matches :: "env \<Rightarrow> regex \<Rightarrow> pyval \<Rightarrow> pyval" where
  "str_matches E r x = PBool (matches r (py_str E x))"

text \<open>\<^verbatim>\<open>.astype(str).str.strip().ne("")\<close>\<close>

definition str_nonblank :: "env \<Rightarrow> pyval \<Rightarrow> pyval" where
  "str_nonblank E x = PBool (py_strip (py_str E x) \<noteq> [])"

text \<open>\<^verbatim>\<open>.astype(str).isin(allowed)\<close>\<close>

definition str_isin :: "env \<Rightarrow> string list \<Rightarrow> pyval \<Rightarrow> pyval" where
  "str_isin E allowed x = PBool (py_str E x \<in> set allowed)"

text \<open>\<^verbatim>\<open>.isin(allowed)\<close> on the value as it is, for a list of integers.\<close>

definition raw_isin :: "int list \<Rightarrow> pyval \<Rightarrow> pyval" where
  "raw_isin allowed x = PBool (list_ex (eq_int x) allowed)"

text \<open>\<^verbatim>\<open>.apply(lambda x: str(x).isdigit())\<close>\<close>

definition str_isdigit :: "env \<Rightarrow> pyval \<Rightarrow> pyval" where
  "str_isdigit E x = PBool (py_isdigit (py_str E x))"

text \<open>\<^verbatim>\<open>str(x).strip().upper() == 'NA'\<close>\<close>

definition is_na_stripped :: "env \<Rightarrow> pyval \<Rightarrow> bool" where
  "is_na_stripped E x = (py_upper (py_strip (py_str E x)) = ''NA'')"

text \<open>\<^verbatim>\<open>str(x).isdigit() or str(x).strip().upper() == 'NA'\<close>\<close>

definition isdigit_or_na :: "env \<Rightarrow> pyval \<Rightarrow> bool" where
  "isdigit_or_na E x = (py_isdigit (py_str E x) \<or> is_na_stripped E x)"

text \<open>The functions nested in the rules, under the names the source gives them.\<close>

definition is_valid_date_origination :: "env \<Rightarrow> string \<Rightarrow> bool" where
  "is_valid_date_origination E date_str =
     (case strptime_ymd date_str of Some d \<Rightarrow> date_le d (today E) | None \<Rightarrow> False)"

definition is_valid_maturity :: "string \<Rightarrow> bool" where
  "is_valid_maturity date_str =
     (case strptime_ymd date_str of Some d \<Rightarrow> True | None \<Rightarrow> date_str = ''9999-01-01'')"

definition is_valid_non_accrual :: "string \<Rightarrow> bool" where
  "is_valid_non_accrual date_str =
     (case strptime_ymd date_str of Some d \<Rightarrow> True | None \<Rightarrow> date_str = ''9999-12-31'')"

definition is_valid_chargeoffs :: "pyval \<Rightarrow> bool" where
  "is_valid_chargeoffs val = (val = PStr ''NA'' \<or> number_ge0 val)"

definition is_valid_rate :: "env \<Rightarrow> pyval \<Rightarrow> bool" where
  "is_valid_rate E val =
     (if is_na_stripped E val then True
      else (case py_float E val of Some v \<Rightarrow> in_unit v | None \<Rightarrow> False))"

definition is_valid_spread :: "env \<Rightarrow> pyval \<Rightarrow> bool" where
  "is_valid_spread E val =
     (if is_na_stripped E val then True
      else (case py_float E val of Some v \<Rightarrow> True | None \<Rightarrow> False))"

definition is_valid_ceiling :: "env \<Rightarrow> pyval \<Rightarrow> bool" where
  "is_valid_ceiling E x =
     (let val = py_upper (py_strip (py_str E x)) in
      if val \<in> set [''NA'', ''NONE''] then True
      else (case float_of_str E val of Some v \<Rightarrow> True | None \<Rightarrow> False))"

definition is_valid_floor :: "env \<Rightarrow> pyval \<Rightarrow> bool" where
  "is_valid_floor E x =
     (let val = py_upper (py_strip (py_str E x)) in
      if val \<in> set [''NA'', ''NONE''] then True
      else (case float_of_str E val of Some v \<Rightarrow> True | None \<Rightarrow> False))"

text \<open>\<^verbatim>\<open>True if x.strip().upper() == 'NA' else bool(re.match(pattern, x))\<close>\<close>

definition na_or_id :: "string \<Rightarrow> bool" where
  "na_or_id x = (if py_upper (py_strip x) = ''NA'' then True else matches pat_id x)"

text \<open>\<^verbatim>\<open>True if x.strip().upper() == 'NA' else bool(x.strip())\<close>\<close>

definition na_or_nonblank :: "string \<Rightarrow> bool" where
  "na_or_nonblank x = (if py_upper (py_strip x) = ''NA'' then True else py_strip x \<noteq> [])"

definition is_valid_pd :: "env \<Rightarrow> pyval \<Rightarrow> bool" where
  "is_valid_pd E x =
     (if py_upper (py_str E x) = ''NA'' then True
      else (case py_float E x of Some v \<Rightarrow> in_unit v | None \<Rightarrow> False))"

definition is_valid_lgd :: "env \<Rightarrow> pyval \<Rightarrow> bool" where
  "is_valid_lgd E x =
     (if py_upper (py_str E x) = ''NA'' then True
      else (case py_float E x of Some v \<Rightarrow> in_unit v | None \<Rightarrow> False))"

definition is_valid_ead :: "env \<Rightarrow> pyval \<Rightarrow> bool" where
  "is_valid_ead E x = (py_isdigit (py_str E x) \<or> py_upper (py_strip (py_str E x)) = ''NA'')"

definition is_valid_date_renewal :: "env \<Rightarrow> pyval \<Rightarrow> bool" where
  "is_valid_date_renewal E x =
     (py_strip (py_str E x) = ''9999-12-31'' \<or> matches pat_renewal (py_str E x))"

definition is_valid_participation :: "env \<Rightarrow> pyval \<Rightarrow> bool" where
  "is_valid_participation E x =
     (if is_na_stripped E x then True
      else (case py_float E x of Some v \<Rightarrow> in_unit v | None \<Rightarrow> False))"

text \<open>
  \<^verbatim>\<open>str(x).strip().upper() == 'NA' or re.match(p, str(x))\<close>: the value of \<^verbatim>\<open>or\<close> is
  \<^verbatim>\<open>True\<close> or what \<^verbatim>\<open>re.match\<close> returned.
\<close>

definition is_valid_target_hold :: "env \<Rightarrow> pyval \<Rightarrow> pyval" where
  "is_valid_target_hold E x =
     (if is_na_stripped E x then PBool True else match_value pat_target_hold (py_str E x))"

text \<open>
  The value is given to \<^verbatim>\<open>strptime\<close> as it is: for a value that is no string the
  \<^verbatim>\<open>TypeError\<close> is caught and the comparison with the sentinel is false.
\<close>

definition is_valid_date_current_maturity :: "pyval \<Rightarrow> bool" where
  "is_valid_date_current_maturity x =
     (case x of
        PStr s \<Rightarrow> (case strptime_ymd s of Some d \<Rightarrow> True | None \<Rightarrow> s = ''9999-01-01'')
      | _ \<Rightarrow> False)"

text \<open>\<^verbatim>\<open>str(x).upper() == 'NA' or re.match(r'^-?\d+$', str(x))\<close>\<close>

definition na_or_integer :: "env \<Rightarrow> pyval \<Rightarrow> pyval" where
  "na_or_integer E x =
     (if py_upper (py_str E x) = ''NA'' then PBool True
      else match_value pat_integer (py_str E x))"

text \<open>\<^verbatim>\<open>re.match(r'^[A-Z0-9]{20}$', str(x)) or str(x).upper() == 'NA'\<close>\<close>

definition lei_or_na :: "env \<Rightarrow> pyval \<Rightarrow> pyval" where
  "lei_or_na E x =
     (case re_match pat_lei (py_str E x) of
        Some m \<Rightarrow> PMatch m
      | None \<Rightarrow> PBool (py_upper (py_str E x) = ''NA''))"

text \<open>\<^verbatim>\<open>pd.to_datetime(col, errors='coerce').notna()\<close>\<close>

definition to_datetime_notna_col :: "env \<Rightarrow> pyval list \<Rightarrow> pyval list" where
  "to_datetime_notna_col E col = map (\<lambda>i. PBool (to_datetime_notna E col i)) [0..<length col]"

subsection \<open>The rules, in the order of the source\<close>

text \<open>
  \<^verbatim>\<open>validate_tax_status\<close> is defined twice in the source, with the same body.
  \<^verbatim>\<open>validate_zip_code\<close> is defined and not registered.
\<close>

definition validate_customer_id :: "env \<Rightarrow> rule" where
  "validate_customer_id E =
     assign_from ''Customer_ID'' ''Customer_ID''
       (map (str_matches E pat_id))"

definition validate_internal_id :: "env \<Rightarrow> rule" where
  "validate_internal_id E =
     assign_from ''Internal_ID'' ''Internal_ID''
       (map (str_matches E pat_id))"

definition validate_original_internal_id :: "env \<Rightarrow> rule" where
  "validate_original_internal_id E =
     assign_from ''Original_Internal_ID'' ''Original_Internal_ID''
       (map (str_matches E pat_id))"

definition validate_obligor_name :: "env \<Rightarrow> rule" where
  "validate_obligor_name E =
     assign_from ''Obligor_Name'' ''Obligor_Name''
       (map (str_matches E pat_id))"

definition validate_city :: "env \<Rightarrow> rule" where
  "validate_city E =
     assign_from ''City'' ''City''
       (map (str_nonblank E))"

definition validate_country :: "env \<Rightarrow> rule" where
  "validate_country E =
     assign_from ''Country'' ''Country''
       (map (str_matches E (rep 2 (Cls upper_AZ))))"

definition validate_zip_code :: "env \<Rightarrow> rule" where
  "validate_zip_code E =
     assign_from ''Zip_Code'' ''Zip_Code''
       (map (str_matches E (rep 5 (Cls digit))))"

definition validate_industry_code :: "env \<Rightarrow> rule" where
  "validate_industry_code E =
     assign_from ''Industry_Code'' ''Industry_Code''
       (map (str_matches E (rep_range 4 6 (Cls digit))))"

definition validate_industry_code_type :: "env \<Rightarrow> rule" where
  "validate_industry_code_type E =
     assign_from ''Industry_Code_Type'' ''Industry_Code_Type''
       (map (str_isin E [''1'', ''2'', ''3'']))"

definition validate_internal_risk_rating :: "env \<Rightarrow> rule" where
  "validate_internal_risk_rating E =
     assign_from ''Internal_Risk_Rating'' ''Internal_Risk_Rating''
       (map (str_nonblank E))"

definition validate_tin :: "env \<Rightarrow> rule" where
  "validate_tin E =
     assign_from ''TIN'' ''TIN''
       (map (str_matches E pat_tin))"

definition validate_stock_exchange :: "env \<Rightarrow> rule" where
  "validate_stock_exchange E =
     assign_from ''Stock_Exchange'' ''Stock_Exchange''
       (map (str_nonblank E))"

definition validate_ticker_symbol :: "env \<Rightarrow> rule" where
  "validate_ticker_symbol E =
     assign_from ''Ticker_Symbol'' ''Ticker_Symbol''
       (map (str_nonblank E))"

definition validate_cusip :: "env \<Rightarrow> rule" where
  "validate_cusip E =
     assign_from ''CUSIP'' ''CUSIP''
       (map (str_matches E pat_cusip))"

definition validate_internal_credit_facility_id :: "env \<Rightarrow> rule" where
  "validate_internal_credit_facility_id E =
     assign_from ''Internal_Credit_Facility_ID'' ''Internal_Credit_Facility_ID''
       (map (str_matches E pat_id))"

definition validate_original_credit_facility_id :: "env \<Rightarrow> rule" where
  "validate_original_credit_facility_id E =
     assign_from ''Original_Credit_Facility_ID'' ''Original_Credit_Facility_ID''
       (map (str_matches E (plus (Cls id_list_char))))"

definition validate_origination_date :: "env \<Rightarrow> rule" where
  "validate_origination_date E =
     assign_from ''Origination_Date'' ''Origination_Date''
       (map (\<lambda>x. PBool (is_valid_date_origination E (py_str E x))))"

definition validate_maturity_date :: "env \<Rightarrow> rule" where
  "validate_maturity_date E =
     assign_from ''Maturity_Date'' ''Maturity_Date''
       (map (\<lambda>x. PBool (is_valid_maturity (py_str E x))))"

definition validate_credit_facility_type :: "env \<Rightarrow> rule" where
  "validate_credit_facility_type E =
     assign_from ''Credit_Facility_Type'' ''Credit_Facility_Type''
       (map (str_isin E (str_range 0 20)))"

definition validate_other_credit_facility_type_desc :: rule where
  "validate_other_credit_facility_type_desc =
     assign_applied ''Other_Credit_Facility_Desc''
       (\<lambda>x. case x ''Credit_Facility_Type'' of
              None \<Rightarrow> Inl KeyError
            | Some t \<Rightarrow>
                if t \<noteq> PStr ''0'' then Inr (PBool True)
                else (case x ''Other_Credit_Facility_Type_Description'' of
                        None \<Rightarrow> Inl KeyError
                      | Some (PStr d) \<Rightarrow> Inr (PBool (py_strip d \<noteq> []))
                      | Some _ \<Rightarrow> Inl AttributeError))"

definition validate_credit_facility_purpose :: "env \<Rightarrow> rule" where
  "validate_credit_facility_purpose E =
     assign_from ''Credit_Facility_Purpose'' ''Credit_Facility_Purpose''
       (map (str_isin E (str_range 0 31 @ [str_int 33])))"

definition validate_other_credit_facility_purpose_desc :: rule where
  "validate_other_credit_facility_purpose_desc =
     assign_applied ''Other_Credit_Facility_Purpose_Desc''
       (\<lambda>x. case x ''Credit_Facility_Purpose'' of
              None \<Rightarrow> Inl KeyError
            | Some t \<Rightarrow>
                if t \<noteq> PStr ''0'' then Inr (PBool True)
                else (case x ''Other_Credit_Facility_Purpose_Description'' of
                        None \<Rightarrow> Inl KeyError
                      | Some (PStr d) \<Rightarrow> Inr (PBool (py_strip d \<noteq> []))
                      | Some _ \<Rightarrow> Inl AttributeError))"

definition validate_committed_exposure :: "env \<Rightarrow> rule" where
  "validate_committed_exposure E =
     assign_from ''Committed_Exposure'' ''Committed_Exposure''
       (map (\<lambda>x. PBool (number_ge0 x)))"

definition validate_utilized_exposure :: "env \<Rightarrow> rule" where
  "validate_utilized_exposure E =
     assign_from ''Utilized_Exposure'' ''Utilized_Exposure''
       (map (\<lambda>x. PBool (number_ge0 x)))"

definition validate_line_reported_on_fry9c :: "env \<Rightarrow> rule" where
  "validate_line_reported_on_fry9c E =
     assign_from ''Line_Reported_on_FR_Y9C'' ''Line_Reported_on_FR_Y9C''
       (map (str_isin E (str_range 1 12)))"

definition validate_line_of_business :: "env \<Rightarrow> rule" where
  "validate_line_of_business E =
     assign_from ''Line_of_Business'' ''Line_of_Business''
       (map (str_nonblank E))"

definition validate_cumulative_chargeoffs :: "env \<Rightarrow> rule" where
  "validate_cumulative_chargeoffs E =
     assign_from ''Cumulative_Chargeoffs'' ''Cumulative_Chargeoffs''
       (map (\<lambda>x. PBool (is_valid_chargeoffs x)))"

definition validate_days_past_due :: "env \<Rightarrow> rule" where
  "validate_days_past_due E =
     assign_from ''Days_Past_Due'' ''Days_Past_Due''
       (map (\<lambda>x. PBool (int_ge0 x)))"

definition validate_non_accrual_date :: "env \<Rightarrow> rule" where
  "validate_non_accrual_date E =
     assign_from ''Non_Accrual_Date'' ''Non_Accrual_Date''
       (map (\<lambda>x. PBool (is_valid_non_accrual (py_str E x))))"

definition validate_participation_flag :: "env \<Rightarrow> rule" where
  "validate_participation_flag E =
     assign_from ''Participation_Flag'' ''Participation_Flag''
       (map (str_isin E [''1'', ''2'', ''3'', ''4'', ''5'']))"

definition validate_lien_position :: "env \<Rightarrow> rule" where
  "validate_lien_position E =
     assign_from ''Lien_Position'' ''Lien_Position''
       (map (str_isin E [''1'', ''2'', ''3'', ''4'']))"

definition validate_security_type :: "env \<Rightarrow> rule" where
  "validate_security_type E =
     assign_from ''Security_Type'' ''Security_Type''
       (map (str_isin E [''0'', ''1'', ''2'', ''3'', ''4'', ''5'', ''6'']))"

definition validate_interest_rate_variability :: "env \<Rightarrow> rule" where
  "validate_interest_rate_variability E =
     assign_from ''Interest_Rate_Variability'' ''Interest_Rate_Variability''
       (map (str_isin E [''1'', ''2'', ''3'', ''4'']))"

definition validate_interest_rate :: "env \<Rightarrow> rule" where
  "validate_interest_rate E =
     assign_from ''Interest_Rate'' ''Interest_Rate''
       (map (\<lambda>x. PBool (is_valid_rate E x)))"

definition validate_interest_rate_index :: "env \<Rightarrow> rule" where
  "validate_interest_rate_index E =
     assign_from ''Interest_Rate_Index'' ''Interest_Rate_Index''
       (map (str_isin E [''1'', ''2'', ''3'', ''4'', ''5'', ''6'', ''7'']))"

definition validate_interest_rate_spread :: "env \<Rightarrow> rule" where
  "validate_interest_rate_spread E =
     assign_from ''Interest_Rate_Spread'' ''Interest_Rate_Spread''
       (map (\<lambda>x. PBool (is_valid_spread E x)))"

definition validate_interest_rate_ceiling :: "env \<Rightarrow> rule" where
  "validate_interest_rate_ceiling E =
     assign_from ''Interest_Rate_Ceiling'' ''Interest_Rate_Ceiling''
       (map (\<lambda>x. PBool (is_valid_ceiling E x)))"

definition validate_interest_rate_floor :: "env \<Rightarrow> rule" where
  "validate_interest_rate_floor E =
     assign_from ''Interest_Rate_Floor'' ''Interest_Rate_Floor''
       (map (\<lambda>x. PBool (is_valid_floor E x)))"

definition validate_tax_status :: "env \<Rightarrow> rule" where
  "validate_tax_status E =
     assign_from ''Tax_Status'' ''Tax_Status''
       (map (str_isin E [''1'', ''2'']))"

definition validate_guarantor_internal_id :: "env \<Rightarrow> rule" where
  "validate_guarantor_internal_id E =
     assign_from ''Guarantor_Internal_ID'' ''Guarantor_Internal_ID''
       (map (\<lambda>x. PBool (na_or_id (py_str E x))))"

definition validate_guarantor_name :: "env \<Rightarrow> rule" where
  "validate_guarantor_name E =
     assign_from ''Guarantor_Name'' ''Guarantor_Name''
       (map (\<lambda>x. PBool (na_or_id (py_str E x))))"

definition validate_guarantor_tin :: "env \<Rightarrow> rule" where
  "validate_guarantor_tin E =
     assign_from ''Guarantor_TIN'' ''Guarantor_TIN''
       (map (\<lambda>x. PBool (matches pat_guarantor_tin (py_upper (py_str E x)))))"

definition validate_guarantor_internal_risk_rating :: "env \<Rightarrow> rule" where
  "validate_guarantor_internal_risk_rating E =
     assign_from ''Guarantor_Internal_Risk_Rating'' ''Guarantor_Internal_Risk_Rating''
       (map (\<lambda>x. PBool (na_or_nonblank (py_str E x))))"

definition validate_entity_internal_id :: "env \<Rightarrow> rule" where
  "validate_entity_internal_id E =
     assign_from ''Entity_Internal_ID'' ''Entity_Internal_ID''
       (map (str_matches E (Star (Cls id_char))))"

definition validate_entity_name :: "env \<Rightarrow> rule" where
  "validate_entity_name E =
     assign_from ''Entity_Name'' ''Entity_Name''
       (map (str_matches E (Star (Cls id_char))))"

definition validate_entity_internal_risk_rating :: "env \<Rightarrow> rule" where
  "validate_entity_internal_risk_rating E =
     assign_from ''Entity_Internal_Risk_Rating'' ''Entity_Internal_Risk_Rating''
       (map (str_nonblank E))"

definition validate_date_financials :: "env \<Rightarrow> rule" where
  "validate_date_financials E =
     assign_from ''Date_Financials'' ''Date_Financials''
       (to_datetime_notna_col E)"

definition validate_date_last_audit :: "env \<Rightarrow> rule" where
  "validate_date_last_audit E =
     assign_from ''Date_Last_Audit'' ''Date_Last_Audit''
       (to_datetime_notna_col E)"

definition validate_net_sales_current :: "env \<Rightarrow> rule" where
  "validate_net_sales_current E =
     assign_from ''Net_Sales_Current'' ''Net_Sales_Current''
       (map (str_isdigit E))"

definition validate_net_sales_prior_year :: "env \<Rightarrow> rule" where
  "validate_net_sales_prior_year E =
     assign_from ''Net_Sales_Prior_Year'' ''Net_Sales_Prior_Year''
       (map (str_isdigit E))"

definition validate_operating_income :: "env \<Rightarrow> rule" where
  "validate_operating_income E =
     assign_from ''Operating_Income'' ''Operating_Income''
       (map (str_isdigit E))"

definition validate_depreciation_amortization :: "env \<Rightarrow> rule" where
  "validate_depreciation_amortization E =
     assign_from ''Depreciation_Amortization'' ''Depreciation_Amortization''
       (map (str_isdigit E))"

definition validate_interest_expense :: "env \<Rightarrow> rule" where
  "validate_interest_expense E =
     assign_from ''Interest_Expense'' ''Interest_Expense''
       (map (str_isdigit E))"

definition validate_net_income_current :: "env \<Rightarrow> rule" where
  "validate_net_income_current E =
     assign_from ''Net_Income_Current'' ''Net_Income_Current''
       (map (str_isdigit E))"

definition validate_net_income_prior_year :: "env \<Rightarrow> rule" where
  "validate_net_income_prior_year E =
     assign_from ''Net_Income_Prior_Year'' ''Net_Income_Prior_Year''
       (map (str_isdigit E))"

definition validate_cash_marketable_securities :: "env \<Rightarrow> rule" where
  "validate_cash_marketable_securities E =
     assign_from ''Cash_Marketable_Securities'' ''Cash_Marketable_Securities''
       (map (str_isdigit E))"

definition validate_accounts_receivable_current :: "env \<Rightarrow> rule" where
  "validate_accounts_receivable_current E =
     assign_from ''Accounts_Receivable_Current'' ''AR_Current''
       (map (str_isdigit E))"

definition validate_accounts_receivable_prior_year :: "env \<Rightarrow> rule" where
  "validate_accounts_receivable_prior_year E =
     assign_from ''Accounts_Receivable_Prior_Year'' ''AR_Prior_Year''
       (map (str_isdigit E))"

definition validate_inventory_current :: "env \<Rightarrow> rule" where
  "validate_inventory_current E =
     assign_from ''Inventory_Current'' ''Inventory_Current''
       (map (str_isdigit E))"

definition validate_inventory_prior_year :: "env \<Rightarrow> rule" where
  "validate_inventory_prior_year E =
     assign_from ''Inventory_Prior_Year'' ''Inventory_Prior_Year''
       (map (str_isdigit E))"

definition validate_current_assets_current :: "env \<Rightarrow> rule" where
  "validate_current_assets_current E =
     assign_from ''Current_Assets_Current'' ''Current_Assets_Current''
       (map (str_isdigit E))"

definition validate_current_assets_prior_year :: "env \<Rightarrow> rule" where
  "validate_current_assets_prior_year E =
     assign_from ''Current_Assets_Prior_Year'' ''Current_Assets_Prior_Year''
       (map (str_isdigit E))"

definition validate_tangible_assets :: "env \<Rightarrow> rule" where
  "validate_tangible_assets E =
     assign_from ''Tangible_Assets'' ''Tangible_Assets''
       (map (str_isdigit E))"

definition validate_fixed_assets :: "env \<Rightarrow> rule" where
  "validate_fixed_assets E =
     assign_from ''Fixed_Assets'' ''Fixed_Assets''
       (map (str_isdigit E))"

definition validate_total_assets_current :: "env \<Rightarrow> rule" where
  "validate_total_assets_current E =
     assign_from ''Total_Assets_Current'' ''Total_Assets_Current''
       (map (str_isdigit E))"

definition validate_total_assets_prior_year :: "env \<Rightarrow> rule" where
  "validate_total_assets_prior_year E =
     assign_from ''Total_Assets_Prior_Year'' ''Total_Assets_Prior_Year''
       (map (str_isdigit E))"

definition validate_accounts_payable_current :: "env \<Rightarrow> rule" where
  "validate_accounts_payable_current E =
     assign_from ''Accounts_Payable_Current'' ''Accounts_Payable_Current''
       (map (str_isdigit E))"

definition validate_accounts_payable_prior_year :: "env \<Rightarrow> rule" where
  "validate_accounts_payable_prior_year E =
     assign_from ''Accounts_Payable_Prior_Year'' ''Accounts_Payable_Prior_Year''
       (map (str_isdigit E))"

definition validate_short_term_debt :: "env \<Rightarrow> rule" where
  "validate_short_term_debt E =
     assign_from ''Short_Term_Debt'' ''Short_Term_Debt''
       (map (str_isdigit E))"

definition validate_current_maturities_long_term_debt :: "env \<Rightarrow> rule" where
  "validate_current_maturities_long_term_debt E =
     assign_from ''Current_Maturities_Long_Term_Debt'' ''Current_Maturities_Long_Term_Debt''
       (map (str_isdigit E))"

definition validate_current_liabilities_current :: "env \<Rightarrow> rule" where
  "validate_current_liabilities_current E =
     assign_from ''Current_Liabilities_Current'' ''Current_Liabilities_Current''
       (map (str_isdigit E))"

definition validate_current_liabilities_prior_year :: "env \<Rightarrow> rule" where
  "validate_current_liabilities_prior_year E =
     assign_from ''Current_Liabilities_Prior_Year'' ''Current_Liabilities_Prior_Year''
       (map (str_isdigit E))"

definition validate_long_term_debt :: "env \<Rightarrow> rule" where
  "validate_long_term_debt E =
     assign_from ''Long_Term_Debt'' ''Long_Term_Debt''
       (map (str_isdigit E))"

definition validate_minority_interest :: "env \<Rightarrow> rule" where
  "validate_minority_interest E =
     assign_from ''Minority_Interest'' ''Minority_Interest''
       (map (\<lambda>x. PBool (isdigit_or_na E x)))"

definition validate_total_liabilities :: "env \<Rightarrow> rule" where
  "validate_total_liabilities E =
     assign_from ''Total_Liabilities'' ''Total_Liabilities''
       (map (str_isdigit E))"

definition validate_retained_earnings :: "env \<Rightarrow> rule" where
  "validate_retained_earnings E =
     assign_from ''Retained_Earnings'' ''Retained_Earnings''
       (map (str_isdigit E))"

definition validate_capital_expenditures :: "env \<Rightarrow> rule" where
  "validate_capital_expenditures E =
     assign_from ''Capital_Expenditures'' ''Capital_Expenditures''
       (map (str_isdigit E))"

definition validate_special_purpose_entity_flag :: "env \<Rightarrow> rule" where
  "validate_special_purpose_entity_flag E =
     assign_from ''Special_Purpose_Entity_Flag'' ''Special_Purpose_Entity_Flag''
       (map (raw_isin [1, 2]))"

definition validate_locom_flag :: "env \<Rightarrow> rule" where
  "validate_locom_flag E =
     assign_from ''LOCOM'' ''LOCOM''
       (map (raw_isin [1, 2, 3]))"

definition validate_snc_internal_credit_id :: "env \<Rightarrow> rule" where
  "validate_snc_internal_credit_id E =
     assign_from ''SNC_Internal_Credit_ID'' ''SNC_Internal_Credit_ID''
       (map (\<lambda>x. PBool (x = PStr ''NA'' \<or> matches (plus (Cls snc_char)) (py_str E x))))"

definition validate_probability_of_default :: "env \<Rightarrow> rule" where
  "validate_probability_of_default E =
     assign_from ''Probability_of_Default'' ''PD''
       (map (\<lambda>x. PBool (is_valid_pd E x)))"

definition validate_loss_given_default :: "env \<Rightarrow> rule" where
  "validate_loss_given_default E =
     assign_from ''LGD'' ''LGD''
       (map (\<lambda>x. PBool (is_valid_lgd E x)))"

definition validate_exposure_at_default :: "env \<Rightarrow> rule" where
  "validate_exposure_at_default E =
     assign_from ''EAD'' ''EAD''
       (map (\<lambda>x. PBool (is_valid_ead E x)))"

definition validate_renewal_date :: "env \<Rightarrow> rule" where
  "validate_renewal_date E =
     assign_from ''Renewal_Date'' ''Renewal_Date''
       (map (\<lambda>x. PBool (is_valid_date_renewal E x)))"

definition validate_credit_facility_currency :: "env \<Rightarrow> rule" where
  "validate_credit_facility_currency E =
     assign_from ''Credit_Facility_Currency'' ''Credit_Facility_Currency''
       (map (\<lambda>x. PBool (matches (rep 3 (Cls upper_AZ)) (py_strip (py_str E x)))))"

definition validate_collateral_market_value :: "env \<Rightarrow> rule" where
  "validate_collateral_market_value E =
     assign_from ''Collateral_Market_Value'' ''Collateral_Market_Value''
       (map (\<lambda>x. PBool (isdigit_or_na E x)))"

definition validate_prepayment_penalty_flag :: "env \<Rightarrow> rule" where
  "validate_prepayment_penalty_flag E =
     assign_from ''Prepayment_Penalty_Flag'' ''Prepayment_Penalty_Flag''
       (map (raw_isin [1, 2, 3]))"

definition validate_entity_industry_code :: "env \<Rightarrow> rule" where
  "validate_entity_industry_code E =
     assign_from ''Entity_Industry_Code'' ''Entity_Industry_Code''
       (map (\<lambda>x. PBool (py_isdigit (py_str E x) \<and> 4 \<le> length (py_str E x) \<and> length (py_str E x) \<le> 6)))"

definition validate_participation_interest :: "env \<Rightarrow> rule" where
  "validate_participation_interest E =
     assign_from ''Participation_Interest'' ''Participation_Interest''
       (map (\<lambda>x. PBool (is_valid_participation E x)))"

definition validate_leveraged_loan_flag :: "env \<Rightarrow> rule" where
  "validate_leveraged_loan_flag E =
     assign_from ''Leveraged_Loan_Flag'' ''Leveraged_Loan_Flag''
       (map (raw_isin [1, 2]))"

definition validate_disposition_flag :: "env \<Rightarrow> rule" where
  "validate_disposition_flag E =
     assign_from ''Disposition_Flag'' ''Disposition_Flag''
       (map (raw_isin (map int [0..<9])))"

definition validate_disposition_schedule_shift :: "env \<Rightarrow> rule" where
  "validate_disposition_schedule_shift E =
     assign_from ''Disposition_Schedule_Shift'' ''Disposition_Schedule_Shift''
       (map (\<lambda>x. PBool (matches pat_schedule_shift (py_strip (py_str E x)) \<or> is_na_stripped E x)))"

definition validate_syndicated_loan_flag :: "env \<Rightarrow> rule" where
  "validate_syndicated_loan_flag E =
     assign_from ''Syndicated_Loan_Flag'' ''Syndicated_Loan_Flag''
       (map (raw_isin [0, 1, 2, 3, 4]))"

definition validate_target_hold :: "env \<Rightarrow> rule" where
  "validate_target_hold E =
     assign_from ''Target_Hold'' ''Target_Hold''
       (map (is_valid_target_hold E))"

definition validate_asc326_20 :: "env \<Rightarrow> rule" where
  "validate_asc326_20 E =
     assign_from ''ASC326_20'' ''ASC326_20''
       (map (str_isdigit E))"

definition validate_pcd_noncredit_discount :: "env \<Rightarrow> rule" where
  "validate_pcd_noncredit_discount E =
     assign_from ''PCD_Noncredit_Discount'' ''PCD_Noncredit_Discount''
       (map (\<lambda>x. PBool (x = PStr [] \<or> py_isdigit (py_str E x))))"

definition validate_current_maturity_date :: "env \<Rightarrow> rule" where
  "validate_current_maturity_date E =
     assign_from ''Current_Maturity_Date'' ''Current_Maturity_Date''
       (map (\<lambda>x. PBool (is_valid_date_current_maturity x)))"

definition validate_committed_exposure_global_par :: "env \<Rightarrow> rule" where
  "validate_committed_exposure_global_par E =
     assign_from ''Committed_Exposure_Global_Par'' ''Committed_Exposure_Global_Par''
       (map (na_or_integer E))"

definition validate_utilized_exposure_global_par :: "env \<Rightarrow> rule" where
  "validate_utilized_exposure_global_par E =
     assign_from ''Utilized_Exposure_Global_Par'' ''Utilized_Exposure_Global_Par''
       (map (na_or_integer E))"

definition validate_committed_exposure_global_fair :: "env \<Rightarrow> rule" where
  "validate_committed_exposure_global_fair E =
     assign_from ''Committed_Exposure_Global_Fair'' ''Committed_Exposure_Global_Fair''
       (map (na_or_integer E))"

definition validate_utilized_exposure_global_fair :: "env \<Rightarrow> rule" where
  "validate_utilized_exposure_global_fair E =
     assign_from ''Utilized_Exposure_Global_Fair'' ''Utilized_Exposure_Global_Fair''
       (map (na_or_integer E))"

definition validate_obligor_lei :: "env \<Rightarrow> rule" where
  "validate_obligor_lei E =
     assign_from ''Obligor_LEI'' ''Obligor_LEI''
       (map (lei_or_na E))"

definition validate_psr_lei :: "env \<Rightarrow> rule" where
  "validate_psr_lei E =
     assign_from ''PSR_LEI'' ''PSR_LEI''
       (map (lei_or_na E))"

subsection \<open>The registry\<close>

definition CORPORATE_LOAN_RULES :: "env \<Rightarrow> rule list" where
  "CORPORATE_LOAN_RULES E =
    [validate_target_hold E,
     validate_asc326_20 E,
     validate_pcd_noncredit_discount E,
     validate_current_maturity_date E,
     validate_committed_exposure_global_par E,
     validate_utilized_exposure_global_par E,
     validate_committed_exposure_global_fair E,
     validate_utilized_exposure_global_fair E,
     validate_obligor_lei E,
     validate_psr_lei E,
     validate_country E,
     validate_city E,
     validate_accounts_payable_current E,
     validate_accounts_payable_prior_year E,
     validate_accounts_receivable_current E,
     validate_accounts_receivable_prior_year E,
     validate_capital_expenditures E,
     validate_cash_marketable_securities E,
     validate_collateral_market_value E,
     validate_committed_exposure E,
     validate_credit_facility_currency E,
     validate_credit_facility_purpose E,
     validate_credit_facility_type E,
     validate_cumulative_chargeoffs E,
     validate_current_assets_current E,
     validate_current_assets_prior_year E,
     validate_current_liabilities_current E,
     validate_current_liabilities_prior_year E,
     validate_current_maturities_long_term_debt E,
     validate_cusip E,
     validate_customer_id E,
     validate_date_financials E,
     validate_date_last_audit E,
     validate_days_past_due E,
     validate_depreciation_amortization E,
     validate_disposition_flag E,
     validate_disposition_schedule_shift E,
     validate_entity_industry_code E,
     validate_entity_internal_id E,
     validate_entity_internal_risk_rating E,
     validate_entity_name E,
     validate_exposure_at_default E,
     validate_fixed_assets E,
     validate_guarantor_internal_id E,
     validate_guarantor_internal_risk_rating E,
     validate_guarantor_name E,
     validate_guarantor_tin E,
     validate_industry_code E,
     validate_industry_code_type E,
     validate_interest_expense E,
     validate_interest_rate E,
     validate_interest_rate_ceiling E,
     validate_interest_rate_floor E,
     validate_interest_rate_index E,
     validate_interest_rate_spread E,
     validate_interest_rate_variability E,
     validate_internal_credit_facility_id E,
     validate_internal_id E,
     validate_internal_risk_rating E,
     validate_inventory_current E,
     validate_inventory_prior_year E,
     validate_leveraged_loan_flag E,
     validate_lien_position E,
     validate_line_of_business E,
     validate_line_reported_on_fry9c E,
     validate_locom_flag E,
     validate_long_term_debt E,
     validate_loss_given_default E,
     validate_maturity_date E,
     validate_minority_interest E,
     validate_net_income_current E,
     validate_net_income_prior_year E,
     validate_net_sales_current E,
     validate_net_sales_prior_year E,
     validate_non_accrual_date E,
     validate_obligor_name E,
     validate_operating_income E,
     validate_original_credit_facility_id E,
     validate_original_internal_id E,
     validate_origination_date E,
     validate_other_credit_facility_purpose_desc,
     validate_other_credit_facility_type_desc,
     validate_participation_flag E,
     validate_participation_interest E,
     validate_prepayment_penalty_flag E,
     validate_probability_of_default E,
     validate_renewal_date E,
     validate_retained_earnings E,
     validate_security_type E,
     validate_short_term_debt E,
     validate_snc_internal_credit_id E,
     validate_special_purpose_entity_flag E,
     validate_stock_exchange E,
     validate_syndicated_loan_flag E,
     validate_tangible_assets E,
     validate_tax_status E,
     validate_ticker_symbol E,
     validate_tin E,
     validate_total_assets_current E,
     validate_total_assets_prior_year E,
     validate_total_liabilities E,
     validate_utilized_exposure E]"

definition RULE_FIELDS :: "(string list \<times> string) list" where
  "RULE_FIELDS =
    [([''Target_Hold''], ''Target_Hold''),
     ([''ASC326_20''], ''ASC326_20''),
     ([''PCD_Noncredit_Discount''], ''PCD_Noncredit_Discount''),
     ([''Current_Maturity_Date''], ''Current_Maturity_Date''),
     ([''Committed_Exposure_Global_Par''], ''Committed_Exposure_Global_Par''),
     ([''Utilized_Exposure_Global_Par''], ''Utilized_Exposure_Global_Par''),
     ([''Committed_Exposure_Global_Fair''], ''Committed_Exposure_Global_Fair''),
     ([''Utilized_Exposure_Global_Fair''], ''Utilized_Exposure_Global_Fair''),
     ([''Obligor_LEI''], ''Obligor_LEI''),
     ([''PSR_LEI''], ''PSR_LEI''),
     ([''Country''], ''Country''),
     ([''City''], ''City''),
     ([''Accounts_Payable_Current''], ''Accounts_Payable_Current''),
     ([''Accounts_Payable_Prior_Year''], ''Accounts_Payable_Prior_Year''),
     ([''Accounts_Receivable_Current''], ''AR_Current''),
     ([''Accounts_Receivable_Prior_Year''], ''AR_Prior_Year''),
     ([''Capital_Expenditures''], ''Capital_Expenditures''),
     ([''Cash_Marketable_Securities''], ''Cash_Marketable_Securities''),
     ([''Collateral_Market_Value''], ''Collateral_Market_Value''),
     ([''Committed_Exposure''], ''Committed_Exposure''),
     ([''Credit_Facility_Currency''], ''Credit_Facility_Currency''),
     ([''Credit_Facility_Purpose''], ''Credit_Facility_Purpose''),
     ([''Credit_Facility_Type''], ''Credit_Facility_Type''),
     ([''Cumulative_Chargeoffs''], ''Cumulative_Chargeoffs''),
     ([''Current_Assets_Current''], ''Current_Assets_Current''),
     ([''Current_Assets_Prior_Year''], ''Current_Assets_Prior_Year''),
     ([''Current_Liabilities_Current''], ''Current_Liabilities_Current''),
     ([''Current_Liabilities_Prior_Year''], ''Current_Liabilities_Prior_Year''),
     ([''Current_Maturities_Long_Term_Debt''], ''Current_Maturities_Long_Term_Debt''),
     ([''CUSIP''], ''CUSIP''),
     ([''Customer_ID''], ''Customer_ID''),
     ([''Date_Financials''], ''Date_Financials''),
     ([''Date_Last_Audit''], ''Date_Last_Audit''),
     ([''Days_Past_Due''], ''Days_Past_Due''),
     ([''Depreciation_Amortization''], ''Depreciation_Amortization''),
     ([''Disposition_Flag''], ''Disposition_Flag''),
     ([''Disposition_Schedule_Shift''], ''Disposition_Schedule_Shift''),
     ([''Entity_Industry_Code''], ''Entity_Industry_Code''),
     ([''Entity_Internal_ID''], ''Entity_Internal_ID''),
     ([''Entity_Internal_Risk_Rating''], ''Entity_Internal_Risk_Rating''),
     ([''Entity_Name''], ''Entity_Name''),
     ([''EAD''], ''EAD''),
     ([''Fixed_Assets''], ''Fixed_Assets''),
     ([''Guarantor_Internal_ID''], ''Guarantor_Internal_ID''),
     ([''Guarantor_Internal_Risk_Rating''], ''Guarantor_Internal_Risk_Rating''),
     ([''Guarantor_Name''], ''Guarantor_Name''),
     ([''Guarantor_TIN''], ''Guarantor_TIN''),
     ([''Industry_Code''], ''Industry_Code''),
     ([''Industry_Code_Type''], ''Industry_Code_Type''),
     ([''Interest_Expense''], ''Interest_Expense''),
     ([''Interest_Rate''], ''Interest_Rate''),
     ([''Interest_Rate_Ceiling''], ''Interest_Rate_Ceiling''),
     ([''Interest_Rate_Floor''], ''Interest_Rate_Floor''),
     ([''Interest_Rate_Index''], ''Interest_Rate_Index''),
     ([''Interest_Rate_Spread''], ''Interest_Rate_Spread''),
     ([''Interest_Rate_Variability''], ''Interest_Rate_Variability''),
     ([''Internal_Credit_Facility_ID''], ''Internal_Credit_Facility_ID''),
     ([''Internal_ID''], ''Internal_ID''),
     ([''Internal_Risk_Rating''], ''Internal_Risk_Rating''),
     ([''Inventory_Current''], ''Inventory_Current''),
     ([''Inventory_Prior_Year''], ''Inventory_Prior_Year''),
     ([''Leveraged_Loan_Flag''], ''Leveraged_Loan_Flag''),
     ([''Lien_Position''], ''Lien_Position''),
     ([''Line_of_Business''], ''Line_of_Business''),
     ([''Line_Reported_on_FR_Y9C''], ''Line_Reported_on_FR_Y9C''),
     ([''LOCOM''], ''LOCOM''),
     ([''Long_Term_Debt''], ''Long_Term_Debt''),
     ([''LGD''], ''LGD''),
     ([''Maturity_Date''], ''Maturity_Date''),
     ([''Minority_Interest''], ''Minority_Interest''),
     ([''Net_Income_Current''], ''Net_Income_Current''),
     ([''Net_Income_Prior_Year''], ''Net_Income_Prior_Year''),
     ([''Net_Sales_Current''], ''Net_Sales_Current''),
     ([''Net_Sales_Prior_Year''], ''Net_Sales_Prior_Year''),
     ([''Non_Accrual_Date''], ''Non_Accrual_Date''),
     ([''Obligor_Name''], ''Obligor_Name''),
     ([''Operating_Income''], ''Operating_Income''),
     ([''Original_Credit_Facility_ID''], ''Original_Credit_Facility_ID''),
     ([''Original_Internal_ID''], ''Original_Internal_ID''),
     ([''Origination_Date''], ''Origination_Date''),
     ([''Credit_Facility_Purpose'', ''Other_Credit_Facility_Purpose_Description''], ''Other_Credit_Facility_Purpose_Desc''),
     ([''Credit_Facility_Type'', ''Other_Credit_Facility_Type_Description''], ''Other_Credit_Facility_Desc''),
     ([''Participation_Flag''], ''Participation_Flag''),
     ([''Participation_Interest''], ''Participation_Interest''),
     ([''Prepayment_Penalty_Flag''], ''Prepayment_Penalty_Flag''),
     ([''Probability_of_Default''], ''PD''),
     ([''Renewal_Date''], ''Renewal_Date''),
     ([''Retained_Earnings''], ''Retained_Earnings''),
     ([''Security_Type''], ''Security_Type''),
     ([''Short_Term_Debt''], ''Short_Term_Debt''),
     ([''SNC_Internal_Credit_ID''], ''SNC_Internal_Credit_ID''),
     ([''Special_Purpose_Entity_Flag''], ''Special_Purpose_Entity_Flag''),
     ([''Stock_Exchange''], ''Stock_Exchange''),
     ([''Syndicated_Loan_Flag''], ''Syndicated_Loan_Flag''),
     ([''Tangible_Assets''], ''Tangible_Assets''),
     ([''Tax_Status''], ''Tax_Status''),
     ([''Ticker_Symbol''], ''Ticker_Symbol''),
     ([''TIN''], ''TIN''),
     ([''Total_Assets_Current''], ''Total_Assets_Current''),
     ([''Total_Assets_Prior_Year''], ''Total_Assets_Prior_Year''),
     ([''Total_Liabilities''], ''Total_Liabilities''),
     ([''Utilized_Exposure''], ''Utilized_Exposure'')]"

text \<open>
  \<open>RULE_FIELDS\<close> lists, for each registered rule in order, the columns its body reads
  and the column it assigns.
\<close>

text \<open>\<^verbatim>\<open>for rule in CORPORATE_LOAN_RULES: df = rule(df)\<close>\<close>

fun run_rules :: "rule list \<Rightarrow> frame \<Rightarrow> exn + frame" where
  "run_rules [] df = Inr df"
| "run_rules (r # rs) df = (case r df of Inl e \<Rightarrow> Inl e | Inr df' \<Rightarrow> run_rules rs df')"

section \<open>Risk scoring, remediation and the pipeline\<close>

text \<open>\<^verbatim>\<open>row.get(key, default)\<close>\<close>

definition row_get :: "row \<Rightarrow> string \<Rightarrow> pyval \<Rightarrow> pyval" where
  "row_get r k d = (case r k of None \<Rightarrow> d | Some v \<Rightarrow> v)"

text \<open>\<^verbatim>\<open>risk_scoring.py\<close>\<close>

definition score :: "row \<Rightarrow> exn + pyval" where
  "score r =
     (case gt_int (row_get r ''Transaction_Amount'' (PInt 0)) 5000 of
        Inl e \<Rightarrow> Inl e
      | Inr high \<Rightarrow>
          if high then Inr (PStr ''HIGH'')
          else if \<not> truthy (row_get r ''Valid_Transaction'' (PBool True))
                  \<or> \<not> truthy (row_get r ''Valid_Currency'' (PBool True))
          then Inr (PStr ''MEDIUM'')
          else Inr (PStr ''LOW''))"

definition assign_risk_score :: rule where
  "assign_risk_score = assign_applied ''Risk_Score'' score"

text \<open>\<^verbatim>\<open>remediation.py\<close>\<close>

definition get_remedy :: "row \<Rightarrow> string" where
  "get_remedy r =
     (if \<not> truthy (row_get r ''Valid_Currency'' (PBool True))
      then ''Fix currency format to ISO 4217.''
      else if \<not> truthy (row_get r ''Valid_Transaction'' (PBool True))
      then ''Adjust Transaction_Amount to match Reported_Amount.''
      else if \<not> truthy (row_get r ''Valid_Transaction_Date'' (PBool True))
      then ''Correct the Transaction_Date (can't be in future).''
      else if row_get r ''Risk_Score'' PNone = PStr ''HIGH''
      then ''Manual audit required due to high amount.''
      else ''No action needed.'')"

definition suggest_remediation :: rule where
  "suggest_remediation = assign_applied ''Remediation'' (\<lambda>r. Inr (PStr (get_remedy r)))"

text \<open>
  \<^verbatim>\<open>custom_rules.py\<close>: \<^verbatim>\<open>apply_custom_rules\<close> overwrites its argument with the empty
  string and returns that.
\<close>

datatype pyobj = Frame frame | Str string

definition apply_custom_rules :: "frame \<Rightarrow> pyobj" where
  "apply_custom_rules df = Str []"

text \<open>
  \<^verbatim>\<open>genai_data_profiling.py\<close>, the body run for an uploaded file. After the rules it
  calls \<^verbatim>\<open>df.apply(score_risk, axis=1)\<close> on what \<^verbatim>\<open>apply_custom_rules\<close> returned:
  a string has no \<^verbatim>\<open>apply\<close> (\<^verbatim>\<open>AttributeError\<close>), and for a frame the name
  \<^verbatim>\<open>score_risk\<close> is defined nowhere (\<^verbatim>\<open>NameError\<close>), so the statements after it
  are never reached.
\<close>

definition profile_upload :: "env \<Rightarrow> frame \<Rightarrow> exn + frame" where
  "profile_upload E df =
     (case run_rules (CORPORATE_LOAN_RULES E) df of
        Inl e \<Rightarrow> Inl e
      | Inr df1 \<Rightarrow>
          (case apply_custom_rules df1 of
             Str s \<Rightarrow> Inl AttributeError
           | Frame df2 \<Rightarrow> Inl NameError))"

section \<open>Specification vocabulary\<close>

text \<open>
  A verdict is any value but a string. A column operation keeps the length of the column
  and yields verdicts. A rule writes only its output column when every frame it returns
  is its argument with that column set to one verdict per row; it is total on the columns
  it reads when it returns on every well-formed frame that has them, and raises without
  them when it ends in \<^verbatim>\<open>KeyError\<close> on every frame that lacks one.
\<close>

fun non_str :: "pyval \<Rightarrow> bool" where
  "non_str (PStr s) = False"
| "non_str _ = True"

definition column_op :: "(pyval list \<Rightarrow> pyval list) \<Rightarrow> bool" where
  "column_op g = (\<forall>col. length (g col) = length col \<and> list_all non_str (g col))"

definition writes_only :: "string \<Rightarrow> rule \<Rightarrow> bool" where
  "writes_only out r = (\<forall>df df'. wf_frame df \<longrightarrow> r df = Inr df' \<longrightarrow>
     (\<exists>vs. length vs = nrows df \<and> list_all non_str vs \<and> df' = setitem out vs df))"

definition total_on :: "string list \<Rightarrow> rule \<Rightarrow> bool" where
  "total_on reads r = (\<forall>df. wf_frame df \<longrightarrow> set reads \<subseteq> set (colnames df) \<longrightarrow>
     (\<exists>df'. r df = Inr df'))"

definition raises_without :: "string list \<Rightarrow> rule \<Rightarrow> bool" where
  "raises_without reads r = (\<forall>df. \<not> set reads \<subseteq> set (colnames df) \<longrightarrow> r df = Inl KeyError)"

definition rule_meets :: "string list \<times> string \<Rightarrow> rule \<Rightarrow> bool" where
  "rule_meets fo r = (writes_only (snd fo) r \<and>
     (length (fst fo) = 1 \<longrightarrow> total_on (fst fo) r \<and> raises_without (fst fo) r))"

definition SOURCE_COLUMNS :: "string list" where
  "SOURCE_COLUMNS = concat (map fst RULE_FIELDS)"


text \<open>
  The frame with \<open>n\<close> rows and the columns \<open>names\<close>, the column \<open>c\<close> holding
  \<open>cell c\<close>, built by assigning the columns one after the other.
\<close>

definition frame_of :: "nat \<Rightarrow> (string \<Rightarrow> pyval list) \<Rightarrow> string list \<Rightarrow> frame" where
  "frame_of n cell names =
     foldl (\<lambda>df c. setitem c (cell c) df) \<lparr>nrows = n, columns = []\<rparr> names"

text \<open>
  The decision list of the remediation advisor in the words of the specification: the
  conditions in order with their messages, and the first condition that holds decides.
  A verdict is false when the row has it and it is not true.
\<close>

definition verdict_false :: "row \<Rightarrow> string \<Rightarrow> bool" where
  "verdict_false r k = (case r k of None \<Rightarrow> False | Some v \<Rightarrow> \<not> truthy v)"

definition REMEDIATION_CONDITIONS :: "((row \<Rightarrow> bool) \<times> string) list" where
  "REMEDIATION_CONDITIONS =
     [(\<lambda>r. verdict_false r ''Valid_Currency'', ''Fix currency format to ISO 4217.''),
      (\<lambda>r. verdict_false r ''Valid_Transaction'',
         ''Adjust Transaction_Amount to match Reported_Amount.''),
      (\<lambda>r. verdict_false r ''Valid_Transaction_Date'',
         ''Correct the Transaction_Date (can't be in future).''),
      (\<lambda>r. r ''Risk_Score'' = Some (PStr ''HIGH''),
         ''Manual audit required due to high amount.'')]"

fun first_match :: "(('a \<Rightarrow> bool) \<times> 'b) list \<Rightarrow> 'b \<Rightarrow> 'a \<Rightarrow> 'b" where
  "first_match [] d x = d"
| "first_match (cm # cms) d x = (if fst cm x then snd cm else first_match cms d x)"






text \<open>
  A rule gives its verdicts by a predicate on values when, on every data set that has
  the column read, it returns the data set with the output column set to the truth value
  of the predicate, row by row.
\<close>

definition verdicts_by :: "string \<Rightarrow> string \<Rightarrow> (pyval \<Rightarrow> bool) \<Rightarrow> rule \<Rightarrow> bool" where
  "verdicts_by src out p r =
     (\<forall>df col. column df src = Some col \<longrightarrow>
        r df = Inr (setitem out (map (\<lambda>x. PBool (p x)) col) df))"

text \<open>
  A rule that reads one column is a column rule when it is an assignment computed from
  that column. Two frames agree except on a column when they have the same rows and
  column names and hold the same values in every other column. Two environments have
  the same library when they differ at most in the day.
\<close>

definition column_rule :: "string list \<times> string \<Rightarrow> rule \<Rightarrow> bool" where
  "column_rule fo r = (length (fst fo) = 1 \<longrightarrow> (\<exists>g. r = assign_from (hd (fst fo)) (snd fo) g))"

definition agree_except :: "string \<Rightarrow> frame \<Rightarrow> frame \<Rightarrow> bool" where
  "agree_except c a b = (nrows a = nrows b \<and> colnames a = colnames b
     \<and> (\<forall>k. k \<noteq> c \<longrightarrow> column a k = column b k))"

definition same_library :: "env \<Rightarrow> env \<Rightarrow> bool" where
  "same_library E1 E2 = (str_of_float E1 = str_of_float E2 \<and> str_of_match E1 = str_of_match E2
     \<and> float_of_str E1 = float_of_str E2 \<and> float_of_int E1 = float_of_int E2
     \<and> to_datetime_notna E1 = to_datetime_notna E2)"

text \<open>
  An environment for evaluating the definitions on concrete inputs, for a given day:
  \<^verbatim>\<open>str\<close> prints NaN, the infinities, 0.0 and 1.0 as Python does (no other float
  occurs in the inputs below), \<^verbatim>\<open>float\<close> converts every integer and refuses every
  string, and \<^verbatim>\<open>pd.to_datetime\<close> yields no date.
\<close>

definition demo_env :: "nat \<times> nat \<times> nat \<Rightarrow> env" where
  "demo_env d =
     \<lparr>str_of_float = (\<lambda>f. case f of NaN \<Rightarrow> ''nan'' | PosInf \<Rightarrow> ''inf'' | NegInf \<Rightarrow> ''-inf''
                          | Fin q \<Rightarrow> if q = 1 then ''1.0'' else ''0.0''),
      str_of_match = (\<lambda>s. ''<re.Match object>''),
      float_of_str = (\<lambda>s. None),
      float_of_int = (\<lambda>i. Some (Fin (of_int i))),
      to_datetime_notna = (\<lambda>col i. False),
      today = d\<rparr>"

text \<open>
  A data set with every source column and two rows: each column holds the strings
  \<^verbatim>\<open>"0"\<close> and \<^verbatim>\<open>"x"\<close>, but the description of the other credit facility type, which
  is blank in the first row, and the origination date.
\<close>

definition sample_cell :: "string \<Rightarrow> pyval list" where
  "sample_cell c =
     (if c = ''Other_Credit_Facility_Type_Description'' then [PStr ''   '', PStr ''n/a'']
      else if c = ''Origination_Date'' then [PStr ''2024-06-15'', PStr ''2020-02-30'']
      else [PStr ''0'', PStr ''x''])"

definition sample_frame :: frame where
  "sample_frame = frame_of 2 sample_cell SOURCE_COLUMNS"




section \<open>Properties of frames and rules\<close>

lemma column_setitem: "column (setitem c vs df) c' = (if c' = c then Some vs else column df c')"
  by (simp add: column_def setitem_def update_conv')

lemma nrows_setitem [simp]: "nrows (setitem c vs df) = nrows df"
  by (simp add: setitem_def)

lemma colnames_setitem:
  "colnames (setitem c vs df) = (if c \<in> set (colnames df) then colnames df else colnames df @ [c])"
  by (simp add: colnames_def setitem_def update_keys)

lemma set_colnames_setitem: "set (colnames (setitem c vs df)) = insert c (set (colnames df))"
  by (auto simp: colnames_setitem)

lemma set_update_subset: "set (AList.update k v al) \<subseteq> insert (k, v) (set al)"
  by (induction al) auto

lemma wf_setitem: "wf_frame df \<Longrightarrow> length vs = nrows df \<Longrightarrow> wf_frame (setitem c vs df)"
  using set_update_subset [of c vs "columns df"]
  by (auto simp: wf_frame_def setitem_def distinct_update list_all_iff)

lemma getitem_absent: "c \<notin> set (colnames df) \<Longrightarrow> getitem c df = Inl KeyError"
  by (simp add: getitem_def colnames_def map_of_eq_None_iff [THEN iffD2])

lemma getitem_present:
  "c \<in> set (colnames df) \<Longrightarrow> \<exists>vs. getitem c df = Inr vs \<and> column df c = Some vs \<and> (c, vs) \<in> set (columns df)"
proof -
  assume "c \<in> set (colnames df)"
  then obtain vs where "map_of (columns df) c = Some vs"
    by (metis colnames_def map_of_eq_None_iff not_Some_eq set_map)
  then show ?thesis
    by (auto simp: getitem_def column_def dest: map_of_SomeD)
qed

lemma wf_column_length: "wf_frame df \<Longrightarrow> (c, vs) \<in> set (columns df) \<Longrightarrow> length vs = nrows df"
  by (auto simp: wf_frame_def list_all_iff)

lemma column_op_map [simp]: "(\<And>x. non_str (f x)) \<Longrightarrow> column_op (map f)"
  by (simp add: column_op_def list_all_iff)

lemma column_op_to_datetime [simp]: "column_op (to_datetime_notna_col E)"
  by (simp add: column_op_def to_datetime_notna_col_def list_all_iff)

lemma non_str_match_value [simp]: "non_str (match_value r s)"
  by (simp add: match_value_def split: option.splits)

lemma non_str_ops [simp]:
  "non_str (str_matches E r x)" "non_str (str_nonblank E x)" "non_str (str_isin E l x)"
  "non_str (raw_isin ks x)" "non_str (str_isdigit E x)" "non_str (is_valid_target_hold E x)"
  "non_str (na_or_integer E x)" "non_str (lei_or_na E x)"
  by (simp_all add: str_matches_def str_nonblank_def str_isin_def raw_isin_def str_isdigit_def
      is_valid_target_hold_def na_or_integer_def lei_or_na_def split: option.splits)

lemma assign_from_meets [simp]:
  assumes "column_op g"
  shows "rule_meets ([src], out) (assign_from src out g)"
proof -
  have w: "writes_only out (assign_from src out g)"
    unfolding writes_only_def
  proof (intro allI impI)
    fix df df' assume wf: "wf_frame df" and r: "assign_from src out g df = Inr df'"
    then obtain col where c: "getitem src df = Inr col" and d: "df' = setitem out (g col) df"
      by (auto simp: assign_from_def split: sum.splits)
    from c have "(src, col) \<in> set (columns df)"
      by (auto simp: getitem_def split: option.splits dest: map_of_SomeD)
    with wf have "length col = nrows df" by (rule wf_column_length)
    with assms have "length (g col) = nrows df" "list_all non_str (g col)"
      by (simp_all add: column_op_def)
    with d show "\<exists>vs. length vs = nrows df \<and> list_all non_str vs \<and> df' = setitem out vs df"
      by blast
  qed
  have t: "total_on [src] (assign_from src out g)"
    unfolding total_on_def using getitem_present [of src]
    by (fastforce simp: assign_from_def)
  have x: "raises_without [src] (assign_from src out g)"
    unfolding raises_without_def by (simp add: assign_from_def getitem_absent)
  from w t x show ?thesis by (simp add: rule_meets_def)
qed

lemma collect_length: "collect xs = Inr vs \<Longrightarrow> length vs = length xs"
  by (induction xs arbitrary: vs) (auto split: sum.splits)

lemma collect_set: "collect xs = Inr vs \<Longrightarrow> v \<in> set vs \<Longrightarrow> Inr v \<in> set xs"
  by (induction xs arbitrary: vs) (auto split: sum.splits)

lemma apply_axis1_length:
  "apply_axis1 f df = Inr (Series vs) \<Longrightarrow> length vs = nrows df"
  by (auto simp: apply_axis1_def split: if_splits sum.splits dest: collect_length)

lemma apply_axis1_values:
  "apply_axis1 f df = Inr (Series vs) \<Longrightarrow> v \<in> set vs \<Longrightarrow> \<exists>r. f r = Inr v"
proof -
  assume a: "apply_axis1 f df = Inr (Series vs)" and v: "v \<in> set vs"
  show ?thesis
  proof (cases "nrows df = 0 \<or> columns df = []")
    case True
    with a v show ?thesis
      by (auto simp: apply_axis1_def split: if_splits sum.splits)
  next
    case False
    with a have "collect (map (\<lambda>i. f (row_at df i)) [0..<nrows df]) = Inr vs"
      by (auto simp: apply_axis1_def split: sum.splits)
    from collect_set [OF this v] obtain i where "f (row_at df i) = Inr v"
      by auto
    then show ?thesis by blast
  qed
qed

lemma apply_axis1_copy:
  "apply_axis1 f df = Inr FrameCopy \<Longrightarrow> nrows df = 0 \<or> columns df = []"
  by (auto simp: apply_axis1_def split: if_splits sum.splits)

lemma assign_applied_writes:
  assumes f: "\<And>r v. f r = Inr v \<Longrightarrow> non_str v"
  shows "writes_only out (assign_applied out f)"
  unfolding writes_only_def
proof (intro allI impI)
  fix df df' assume wf: "wf_frame df" and r: "assign_applied out f df = Inr df'"
  show "\<exists>vs. length vs = nrows df \<and> list_all non_str vs \<and> df' = setitem out vs df"
  proof (cases "apply_axis1 f df")
    case (Inl e) with r show ?thesis by (simp add: assign_applied_def)
  next
    case (Inr a)
    show ?thesis
    proof (cases a)
      case (Series vs)
      with Inr have a: "apply_axis1 f df = Inr (Series vs)" by simp
      from a have "length vs = nrows df" by (rule apply_axis1_length)
      moreover from apply_axis1_values [OF a] f have "list_all non_str vs"
        by (auto simp: list_all_iff)
      moreover from a r have "df' = setitem out vs df" by (simp add: assign_applied_def)
      ultimately show ?thesis by blast
    next
      case FrameCopy
      with Inr have a: "apply_axis1 f df = Inr FrameCopy" by simp
      with r have one: "length (columns df) = 1" and d: "df' = setitem out (snd (hd (columns df))) df"
        by (auto simp: assign_applied_def split: if_splits)
      from one have h: "hd (columns df) \<in> set (columns df)" by (cases "columns df") auto
      with wf have l: "length (snd (hd (columns df))) = nrows df"
        by (auto simp: wf_frame_def list_all_iff)
      from one apply_axis1_copy [OF a] have "nrows df = 0" by auto
      with l have "list_all non_str (snd (hd (columns df)))" by simp
      with l d show ?thesis by blast
    qed
  qed
qed

lemma cond_type_meets [simp]:
  "rule_meets ([g, d], ''Other_Credit_Facility_Desc'') validate_other_credit_facility_type_desc"
  unfolding rule_meets_def validate_other_credit_facility_type_desc_def
  by (auto intro!: assign_applied_writes split: option.splits if_splits pyval.splits)

lemma cond_purpose_meets [simp]:
  "rule_meets ([g, d], ''Other_Credit_Facility_Purpose_Desc'') validate_other_credit_facility_purpose_desc"
  unfolding rule_meets_def validate_other_credit_facility_purpose_desc_def
  by (auto intro!: assign_applied_writes split: option.splits if_splits pyval.splits)

lemmas rule_defs =
  validate_customer_id_def validate_internal_id_def validate_original_internal_id_def
  validate_obligor_name_def validate_city_def validate_country_def
  validate_industry_code_def validate_industry_code_type_def validate_internal_risk_rating_def
  validate_tin_def validate_stock_exchange_def validate_ticker_symbol_def
  validate_cusip_def validate_internal_credit_facility_id_def validate_original_credit_facility_id_def
  validate_origination_date_def validate_maturity_date_def validate_credit_facility_type_def
  validate_credit_facility_purpose_def validate_committed_exposure_def validate_utilized_exposure_def
  validate_line_reported_on_fry9c_def validate_line_of_business_def validate_cumulative_chargeoffs_def
  validate_days_past_due_def validate_non_accrual_date_def validate_participation_flag_def
  validate_lien_position_def validate_security_type_def validate_interest_rate_variability_def
  validate_interest_rate_def validate_interest_rate_index_def validate_interest_rate_spread_def
  validate_interest_rate_ceiling_def validate_interest_rate_floor_def validate_tax_status_def
  validate_guarantor_internal_id_def validate_guarantor_name_def validate_guarantor_tin_def
  validate_guarantor_internal_risk_rating_def validate_entity_internal_id_def validate_entity_name_def
  validate_entity_internal_risk_rating_def validate_date_financials_def validate_date_last_audit_def
  validate_net_sales_current_def validate_net_sales_prior_year_def validate_operating_income_def
  validate_depreciation_amortization_def validate_interest_expense_def validate_net_income_current_def
  validate_net_income_prior_year_def validate_cash_marketable_securities_def validate_accounts_receivable_current_def
  validate_accounts_receivable_prior_year_def validate_inventory_current_def validate_inventory_prior_year_def
  validate_current_assets_current_def validate_current_assets_prior_year_def validate_tangible_assets_def
  validate_fixed_assets_def validate_total_assets_current_def validate_total_assets_prior_year_def
  validate_accounts_payable_current_def validate_accounts_payable_prior_year_def validate_short_term_debt_def
  validate_current_maturities_long_term_debt_def validate_current_liabilities_current_def validate_current_liabilities_prior_year_def
  validate_long_term_debt_def validate_minority_interest_def validate_total_liabilities_def
  validate_retained_earnings_def validate_capital_expenditures_def validate_special_purpose_entity_flag_def
  validate_locom_flag_def validate_snc_internal_credit_id_def validate_probability_of_default_def
  validate_loss_given_default_def validate_exposure_at_default_def validate_renewal_date_def
  validate_credit_facility_currency_def validate_collateral_market_value_def validate_prepayment_penalty_flag_def
  validate_entity_industry_code_def validate_participation_interest_def validate_leveraged_loan_flag_def
  validate_disposition_flag_def validate_disposition_schedule_shift_def validate_syndicated_loan_flag_def
  validate_target_hold_def validate_asc326_20_def validate_pcd_noncredit_discount_def
  validate_current_maturity_date_def validate_committed_exposure_global_par_def validate_utilized_exposure_global_par_def
  validate_committed_exposure_global_fair_def validate_utilized_exposure_global_fair_def validate_obligor_lei_def
  validate_psr_lei_def

lemma registry_meets: "list_all2 rule_meets RULE_FIELDS (CORPORATE_LOAN_RULES E)"
  unfolding CORPORATE_LOAN_RULES_def RULE_FIELDS_def
  by (simp add: rule_defs)


lemma run_rules_append:
  "run_rules (xs @ ys) df = (case run_rules xs df of Inl e \<Rightarrow> Inl e | Inr d \<Rightarrow> run_rules ys d)"
  by (induction xs arbitrary: df) (auto split: sum.splits)

lemma meets_step:
  assumes "rule_meets fo r" "wf_frame df" "r df = Inr d"
  shows "\<exists>vs. length vs = nrows df \<and> list_all non_str vs \<and> d = setitem (snd fo) vs df \<and> wf_frame d"
  using assms wf_setitem unfolding rule_meets_def writes_only_def by blast

lemma run_frame:
  assumes "list_all2 rule_meets specs rs" "wf_frame df" "run_rules rs df = Inr df'"
  shows "wf_frame df' \<and> nrows df' = nrows df
     \<and> (\<forall>c. c \<notin> snd ` set specs \<longrightarrow> column df' c = column df c)
     \<and> (\<forall>c \<in> snd ` set specs. \<exists>vs. column df' c = Some vs \<and> list_all non_str vs)
     \<and> set (colnames df') = set (colnames df) \<union> snd ` set specs
     \<and> (\<exists>extra. colnames df' = colnames df @ extra)"
  using assms
proof (induction specs rs arbitrary: df rule: list_all2_induct)
  case Nil
  then show ?case by simp
next
  case (Cons fo specs r rs)
  from Cons.prems(2) obtain d where rd: "r df = Inr d" and rest: "run_rules rs d = Inr df'"
    by (auto split: sum.splits)
  from meets_step [OF Cons.hyps(1) Cons.prems(1) rd] obtain vs where
    vs: "length vs = nrows df" "list_all non_str vs" "d = setitem (snd fo) vs df" "wf_frame d"
    by blast
  from Cons.IH [OF vs(4) rest] have ih:
    "wf_frame df'" "nrows df' = nrows d"
    "\<forall>c. c \<notin> snd ` set specs \<longrightarrow> column df' c = column d c"
    "\<forall>c \<in> snd ` set specs. \<exists>vs. column df' c = Some vs \<and> list_all non_str vs"
    "set (colnames df') = set (colnames d) \<union> snd ` set specs"
    "\<exists>extra. colnames df' = colnames d @ extra"
    by blast+
  have a: "nrows df' = nrows df" using ih(2) vs(3) by simp
  have b: "\<forall>c. c \<notin> snd ` set (fo # specs) \<longrightarrow> column df' c = column df c"
    using ih(3) vs(3) by (simp add: column_setitem)
  have c: "\<forall>c \<in> snd ` set (fo # specs). \<exists>vs. column df' c = Some vs \<and> list_all non_str vs"
  proof
    fix c assume "c \<in> snd ` set (fo # specs)"
    then consider "c \<in> snd ` set specs" | "c = snd fo" "c \<notin> snd ` set specs" by auto
    then show "\<exists>vs. column df' c = Some vs \<and> list_all non_str vs"
    proof cases
      case 1 with ih(4) show ?thesis by blast
    next
      case 2
      with ih(3) have "column df' c = column d c" by blast
      with 2 vs show ?thesis by (simp add: column_setitem)
    qed
  qed
  have d: "set (colnames df') = set (colnames df) \<union> snd ` set (fo # specs)"
    using ih(5) vs(3) by (auto simp: set_colnames_setitem)
  have e: "\<exists>extra. colnames df' = colnames df @ extra"
    using ih(6) vs(3) by (auto simp: colnames_setitem)
  from ih(1) a b c d e show ?case by blast
qed

lemma run_total:
  assumes "list_all2 rule_meets specs rs" "\<forall>fo \<in> set specs. length (fst fo) = 1"
    "wf_frame df" "\<forall>fo \<in> set specs. set (fst fo) \<subseteq> set (colnames df)"
  shows "\<exists>df'. run_rules rs df = Inr df'"
  using assms
proof (induction specs rs arbitrary: df rule: list_all2_induct)
  case Nil
  then show ?case by simp
next
  case (Cons fo specs r rs)
  from Cons.hyps(1) Cons.prems(1) have "total_on (fst fo) r"
    by (simp add: rule_meets_def)
  with Cons.prems(2,3) obtain d where rd: "r df = Inr d"
    unfolding total_on_def by auto
  from meets_step [OF Cons.hyps(1) Cons.prems(2) rd] obtain vs where
    vs: "d = setitem (snd fo) vs df" "wf_frame d"
    by blast
  from vs(1) Cons.prems(3) have "\<forall>fo \<in> set specs. set (fst fo) \<subseteq> set (colnames d)"
    by (auto simp: set_colnames_setitem)
  with Cons.IH [OF _ vs(2)] Cons.prems(1) obtain df' where "run_rules rs d = Inr df'"
    by auto
  with rd show ?case by simp
qed

lemma collect_map_Inr: "(\<And>x. x \<in> set xs \<Longrightarrow> f x = Inr (g x)) \<Longrightarrow> collect (map f xs) = Inr (map g xs)"
  by (induction xs) auto

lemma map_of_map_values:
  "map_of (map (\<lambda>kv. (fst kv, f (snd kv))) al) c = map_option f (map_of al c)"
  by (induction al) auto

lemma row_at_column: "row_at df i c = map_option (\<lambda>vs. vs ! i) (column df c)"
  using map_of_map_values [of "\<lambda>vs. vs ! i" "columns df" c]
  by (simp add: row_at_def column_def)

lemma probe_row_column: "probe_row df c = map_option (\<lambda>vs. PFloat NaN) (column df c)"
  using map_of_map_values [of "\<lambda>vs. PFloat NaN" "columns df" c]
  by (simp add: probe_row_def column_def)

section \<open>Remediation and risk scoring\<close>

lemma row_get_truthy: "(\<not> truthy (row_get r k (PBool True))) = verdict_false r k"
  by (simp add: row_get_def verdict_false_def split: option.splits)

lemma row_get_high: "(row_get r k PNone = PStr s) = (r k = Some (PStr s))"
  by (auto simp: row_get_def split: option.splits)

text \<open>
  Claim C7. For every row the remediation suggestion is the message of the first
  condition that holds in the fixed ordered list (\<open>Valid_Currency\<close> false, then
  \<open>Valid_Transaction\<close> false, then \<open>Valid_Transaction_Date\<close> false, then
  \<open>Risk_Score\<close> HIGH), and is exactly ``No action needed.'' when none holds. A row with
  \<open>Valid_Currency\<close> false gets the currency-format message; a row with \<open>Risk_Score\<close>
  HIGH and all three verdicts true gets the manual-audit message.
\<close>

theorem remediation_first_match:
  "get_remedy r = first_match REMEDIATION_CONDITIONS ''No action needed.'' r
   \<and> ((\<forall>cm \<in> set REMEDIATION_CONDITIONS. \<not> fst cm r) \<longrightarrow> get_remedy r = ''No action needed.'')
   \<and> (r ''Valid_Currency'' = Some (PBool False) \<longrightarrow> get_remedy r = ''Fix currency format to ISO 4217.'')
   \<and> (r ''Valid_Currency'' = Some (PBool True) \<and> r ''Valid_Transaction'' = Some (PBool True)
        \<and> r ''Valid_Transaction_Date'' = Some (PBool True) \<and> r ''Risk_Score'' = Some (PStr ''HIGH'')
        \<longrightarrow> get_remedy r = ''Manual audit required due to high amount.'')"
  by (simp add: get_remedy_def REMEDIATION_CONDITIONS_def row_get_truthy row_get_high verdict_false_def)

text \<open>The theorem at three rows, one for each of its cases.\<close>

theorem remediation_first_match_witness:
  "get_remedy [''Valid_Currency'' \<mapsto> PBool False, ''Risk_Score'' \<mapsto> PStr ''HIGH'']
     = ''Fix currency format to ISO 4217.''
   \<and> get_remedy [''Valid_Currency'' \<mapsto> PBool True, ''Valid_Transaction'' \<mapsto> PBool True,
        ''Valid_Transaction_Date'' \<mapsto> PBool True, ''Risk_Score'' \<mapsto> PStr ''HIGH'']
     = ''Manual audit required due to high amount.''
   \<and> get_remedy [''Valid_Currency'' \<mapsto> PBool True, ''Risk_Score'' \<mapsto> PStr ''LOW'']
     = ''No action needed.''"
  using remediation_first_match [of "[''Valid_Currency'' \<mapsto> PBool False, ''Risk_Score'' \<mapsto> PStr ''HIGH'']"]
    remediation_first_match [of "[''Valid_Currency'' \<mapsto> PBool True, ''Valid_Transaction'' \<mapsto> PBool True,
        ''Valid_Transaction_Date'' \<mapsto> PBool True, ''Risk_Score'' \<mapsto> PStr ''HIGH'']"]
    remediation_first_match [of "[''Valid_Currency'' \<mapsto> PBool True, ''Risk_Score'' \<mapsto> PStr ''LOW'']"]
  by (simp add: REMEDIATION_CONDITIONS_def verdict_false_def)





section \<open>The full pass over the registry\<close>

lemma column_in_colnames: "column df c = Some vs \<Longrightarrow> c \<in> set (colnames df)"
  by (auto simp: column_def colnames_def dest!: map_of_SomeD intro: rev_image_eqI)

lemma wf_column: "wf_frame df \<Longrightarrow> column df c = Some vs \<Longrightarrow> length vs = nrows df"
  by (auto simp: column_def dest!: map_of_SomeD intro: wf_column_length)

lemma apply_axis1_const:
  assumes wf: "wf_frame df" and col: "column df gov = Some vs" and ns: "list_all non_str vs"
    and f: "\<And>x t. x gov = Some t \<Longrightarrow> non_str t \<Longrightarrow> f x = Inr b"
  shows "apply_axis1 f df = Inr (Series (replicate (nrows df) b))"
proof -
  from col have ne: "columns df \<noteq> []" by (auto simp: column_def)
  show ?thesis
  proof (cases "nrows df = 0")
    case True
    have "probe_row df gov = Some (PFloat NaN)" by (simp add: probe_row_column col)
    then have "f (probe_row df) = Inr b" by (rule f) simp
    with True show ?thesis by (simp add: apply_axis1_def)
  next
    case False
    have "f (row_at df i) = Inr b" if "i \<in> set [0..<nrows df]" for i
    proof -
      from that wf col have "i < length vs" by (simp add: wf_column)
      with ns have "non_str (vs ! i)" by (simp add: list_all_length)
      moreover have "row_at df i gov = Some (vs ! i)" by (simp add: row_at_column col)
      ultimately show ?thesis by (rule f [rotated])
    qed
    then have "collect (map (\<lambda>i. f (row_at df i)) [0..<nrows df]) = Inr (map (\<lambda>i. b) [0..<nrows df])"
      by (rule collect_map_Inr)
    with False ne show ?thesis by (simp add: apply_axis1_def map_replicate_const)
  qed
qed

lemma cond_type_on_verdicts:
  assumes "wf_frame df" "column df ''Credit_Facility_Type'' = Some vs" "list_all non_str vs"
  shows "validate_other_credit_facility_type_desc df
    = Inr (setitem ''Other_Credit_Facility_Desc'' (replicate (nrows df) (PBool True)) df)"
  unfolding validate_other_credit_facility_type_desc_def assign_applied_def
  by (subst apply_axis1_const [OF assms, where b = "PBool True"]) (auto elim: non_str.elims)

lemma cond_purpose_on_verdicts:
  assumes "wf_frame df" "column df ''Credit_Facility_Purpose'' = Some vs" "list_all non_str vs"
  shows "validate_other_credit_facility_purpose_desc df
    = Inr (setitem ''Other_Credit_Facility_Purpose_Desc'' (replicate (nrows df) (PBool True)) df)"
  unfolding validate_other_credit_facility_purpose_desc_def assign_applied_def
  by (subst apply_axis1_const [OF assms, where b = "PBool True"]) (auto elim: non_str.elims)

lemma registry_length: "length (CORPORATE_LOAN_RULES E) = 102" "length RULE_FIELDS = 102"
  by (simp_all add: CORPORATE_LOAN_RULES_def RULE_FIELDS_def)

lemma registry_split:
  "CORPORATE_LOAN_RULES E = take 80 (CORPORATE_LOAN_RULES E)
     @ validate_other_credit_facility_purpose_desc # validate_other_credit_facility_type_desc
     # drop 82 (CORPORATE_LOAN_RULES E)"
  by (simp add: CORPORATE_LOAN_RULES_def)

lemma fields_head_single: "\<forall>fo \<in> set (take 80 RULE_FIELDS). length (fst fo) = 1"
  by (simp add: RULE_FIELDS_def)

lemma fields_tail_single: "\<forall>fo \<in> set (drop 82 RULE_FIELDS). length (fst fo) = 1"
  by (simp add: RULE_FIELDS_def)

lemma fields_head_outs:
  "''Credit_Facility_Type'' \<in> snd ` set (take 80 RULE_FIELDS)"
  "''Credit_Facility_Purpose'' \<in> snd ` set (take 80 RULE_FIELDS)"
  by (simp_all add: RULE_FIELDS_def)

lemma fields_tail_outs:
  "''Other_Credit_Facility_Desc'' \<notin> snd ` set (drop 82 RULE_FIELDS)"
  "''Other_Credit_Facility_Purpose_Desc'' \<notin> snd ` set (drop 82 RULE_FIELDS)"
  by (simp_all add: RULE_FIELDS_def)


lemma source_columns_cover:
  "set SOURCE_COLUMNS \<subseteq> cols \<Longrightarrow> fo \<in> set RULE_FIELDS \<Longrightarrow> set (fst fo) \<subseteq> cols"
  by (auto simp: SOURCE_COLUMNS_def)

lemma registry_run:
  assumes wf: "wf_frame df" and cols: "set SOURCE_COLUMNS \<subseteq> set (colnames df)"
  shows "\<exists>df'. run_rules (CORPORATE_LOAN_RULES E) df = Inr df'
     \<and> column df' ''Other_Credit_Facility_Desc'' = Some (replicate (nrows df) (PBool True))
     \<and> column df' ''Other_Credit_Facility_Purpose_Desc'' = Some (replicate (nrows df) (PBool True))"
proof -
  let ?R = "CORPORATE_LOAN_RULES E"
  have m: "list_all2 rule_meets RULE_FIELDS ?R" by (rule registry_meets)
  have mh: "list_all2 rule_meets (take 80 RULE_FIELDS) (take 80 ?R)"
    using m by (rule list_all2_takeI)
  have mt: "list_all2 rule_meets (drop 82 RULE_FIELDS) (drop 82 ?R)"
    using m by (rule list_all2_dropI)
  have ch: "\<forall>fo \<in> set (take 80 RULE_FIELDS). set (fst fo) \<subseteq> set (colnames df)"
    using source_columns_cover [OF cols] by (blast dest: in_set_takeD)
  from run_total [OF mh fields_head_single wf ch]
  obtain d1 where r1: "run_rules (take 80 ?R) df = Inr d1" by blast
  from run_frame [OF mh wf r1] have f1: "wf_frame d1" "nrows d1 = nrows df"
    "\<forall>c \<in> snd ` set (take 80 RULE_FIELDS). \<exists>vs. column d1 c = Some vs \<and> list_all non_str vs"
    "set (colnames d1) = set (colnames df) \<union> snd ` set (take 80 RULE_FIELDS)"
    by blast+
  from f1(3) fields_head_outs obtain vp vt where
    vp: "column d1 ''Credit_Facility_Purpose'' = Some vp" "list_all non_str vp" and
    vt: "column d1 ''Credit_Facility_Type'' = Some vt" "list_all non_str vt"
    by blast
  define d2 where "d2 = setitem ''Other_Credit_Facility_Purpose_Desc'' (replicate (nrows df) (PBool True)) d1"
  have r2: "validate_other_credit_facility_purpose_desc d1 = Inr d2"
    using cond_purpose_on_verdicts [OF f1(1) vp] f1(2) by (simp add: d2_def)
  have w2: "wf_frame d2" unfolding d2_def using f1(1,2) by (simp add: wf_setitem)
  have t2: "column d2 ''Credit_Facility_Type'' = Some vt"
    using vt(1) by (simp add: d2_def column_setitem)
  define d3 where "d3 = setitem ''Other_Credit_Facility_Desc'' (replicate (nrows df) (PBool True)) d2"
  have n2: "nrows d2 = nrows df" using f1(2) by (simp add: d2_def)
  have r3: "validate_other_credit_facility_type_desc d2 = Inr d3"
    using cond_type_on_verdicts [OF w2 t2 vt(2)] n2 by (simp add: d3_def)
  have w3: "wf_frame d3" unfolding d3_def using w2 n2 by (simp add: wf_setitem)
  have c3: "set (colnames df) \<subseteq> set (colnames d3)"
    using f1(4) by (auto simp: d3_def d2_def set_colnames_setitem)
  have ct: "\<forall>fo \<in> set (drop 82 RULE_FIELDS). set (fst fo) \<subseteq> set (colnames d3)"
    using source_columns_cover [OF cols] c3 by (blast dest: in_set_dropD)
  from run_total [OF mt fields_tail_single w3 ct]
  obtain d4 where r4: "run_rules (drop 82 ?R) d3 = Inr d4" by blast
  from run_frame [OF mt w3 r4] have f4:
    "\<forall>c. c \<notin> snd ` set (drop 82 RULE_FIELDS) \<longrightarrow> column d4 c = column d3 c"
    by blast
  have "run_rules ?R df = Inr d4"
    by (subst registry_split) (simp add: run_rules_append r1 r2 r3 r4)
  moreover have "column d4 ''Other_Credit_Facility_Desc'' = Some (replicate (nrows df) (PBool True))"
    using f4 fields_tail_outs(1) by (simp add: d3_def column_setitem)
  moreover have "column d4 ''Other_Credit_Facility_Purpose_Desc'' = Some (replicate (nrows df) (PBool True))"
    using f4 fields_tail_outs(2) by (simp add: d3_def d2_def column_setitem)
  ultimately show ?thesis by blast
qed

section \<open>The data sets of the examples\<close>

lemma foldl_setitem:
  assumes "wf_frame df0" "\<And>c. length (cell c) = nrows df0"
  shows "wf_frame (foldl (\<lambda>df c. setitem c (cell c) df) df0 names)
    \<and> nrows (foldl (\<lambda>df c. setitem c (cell c) df) df0 names) = nrows df0
    \<and> set (colnames (foldl (\<lambda>df c. setitem c (cell c) df) df0 names)) = set (colnames df0) \<union> set names
    \<and> (\<forall>c \<in> set names. column (foldl (\<lambda>df c. setitem c (cell c) df) df0 names) c = Some (cell c))
    \<and> (\<forall>c. c \<notin> set names \<longrightarrow> column (foldl (\<lambda>df c. setitem c (cell c) df) df0 names) c = column df0 c)"
  using assms
proof (induction names arbitrary: df0)
  case Nil
  then show ?case by simp
next
  case (Cons a names)
  let ?d = "setitem a (cell a) df0"
  have w: "wf_frame ?d" using Cons.prems by (simp add: wf_setitem)
  have n: "\<And>c. length (cell c) = nrows ?d" using Cons.prems by simp
  from Cons.IH [OF w n] show ?case
    by (auto simp: set_colnames_setitem column_setitem)
qed

lemma frame_of_props:
  assumes "\<And>c. length (cell c) = n"
  shows "wf_frame (frame_of n cell names)" "nrows (frame_of n cell names) = n"
    "set (colnames (frame_of n cell names)) = set names"
    "c \<in> set names \<Longrightarrow> column (frame_of n cell names) c = Some (cell c)"
proof -
  have f: "wf_frame (frame_of n cell names)
    \<and> nrows (frame_of n cell names) = nrows \<lparr>nrows = n, columns = []\<rparr>
    \<and> set (colnames (frame_of n cell names)) = set (colnames \<lparr>nrows = n, columns = []\<rparr>) \<union> set names
    \<and> (\<forall>c \<in> set names. column (frame_of n cell names) c = Some (cell c))
    \<and> (\<forall>c. c \<notin> set names \<longrightarrow> column (frame_of n cell names) c = column \<lparr>nrows = n, columns = []\<rparr> c)"
    unfolding frame_of_def
    by (rule foldl_setitem) (simp_all add: wf_frame_def assms)
  from f show "wf_frame (frame_of n cell names)" by blast
  from f show "nrows (frame_of n cell names) = n" by simp
  from f show "set (colnames (frame_of n cell names)) = set names" by (simp add: colnames_def)
  from f show "c \<in> set names \<Longrightarrow> column (frame_of n cell names) c = Some (cell c)" by blast
qed

lemma sample_frame_props:
  "wf_frame sample_frame" "nrows sample_frame = 2"
  "set SOURCE_COLUMNS \<subseteq> set (colnames sample_frame)"
  "c \<in> set SOURCE_COLUMNS \<Longrightarrow> column sample_frame c = Some (sample_cell c)"
  unfolding sample_frame_def
  by (simp_all add: frame_of_props sample_cell_def)


lemma source_columns_mem:
  "''Credit_Facility_Type'' \<in> set SOURCE_COLUMNS"
  "''Other_Credit_Facility_Type_Description'' \<in> set SOURCE_COLUMNS"
  "''Origination_Date'' \<in> set SOURCE_COLUMNS"
  by (simp_all add: SOURCE_COLUMNS_def RULE_FIELDS_def)

lemma sample_frame_columns:
  "column sample_frame ''Credit_Facility_Type'' = Some [PStr ''0'', PStr ''x'']"
  "column sample_frame ''Other_Credit_Facility_Type_Description'' = Some [PStr ''   '', PStr ''n/a'']"
  "column sample_frame ''Origination_Date'' = Some [PStr ''2024-06-15'', PStr ''2020-02-30'']"
  by (simp_all add: sample_frame_props(4) source_columns_mem sample_cell_def)


lemma registry_nth:
  "CORPORATE_LOAN_RULES E ! 80 = validate_other_credit_facility_purpose_desc"
  "CORPORATE_LOAN_RULES E ! 81 = validate_other_credit_facility_type_desc"
  "CORPORATE_LOAN_RULES E ! 22 = validate_credit_facility_type E"
  "CORPORATE_LOAN_RULES E ! 14 = validate_accounts_receivable_current E"
  "CORPORATE_LOAN_RULES E ! 10 = validate_country E"
  "CORPORATE_LOAN_RULES E ! 79 = validate_origination_date E"
  by (simp_all add: CORPORATE_LOAN_RULES_def)


lemma registry_before_type_desc:
  assumes wf: "wf_frame df" and cols: "set SOURCE_COLUMNS \<subseteq> set (colnames df)"
  shows "\<exists>d vs. run_rules (take 81 (CORPORATE_LOAN_RULES E)) df = Inr d
     \<and> column d ''Credit_Facility_Type'' = Some vs \<and> list_all non_str vs"
proof -
  let ?R = "CORPORATE_LOAN_RULES E"
  have m: "list_all2 rule_meets RULE_FIELDS ?R" by (rule registry_meets)
  have mh: "list_all2 rule_meets (take 80 RULE_FIELDS) (take 80 ?R)"
    using m by (rule list_all2_takeI)
  have ch: "\<forall>fo \<in> set (take 80 RULE_FIELDS). set (fst fo) \<subseteq> set (colnames df)"
    using source_columns_cover [OF cols] by (blast dest: in_set_takeD)
  from run_total [OF mh fields_head_single wf ch]
  obtain d1 where r1: "run_rules (take 80 ?R) df = Inr d1" by blast
  from run_frame [OF mh wf r1] have f1: "wf_frame d1" "nrows d1 = nrows df"
    "\<forall>c \<in> snd ` set (take 80 RULE_FIELDS). \<exists>vs. column d1 c = Some vs \<and> list_all non_str vs"
    by blast+
  from f1(3) fields_head_outs obtain vp vt where
    vp: "column d1 ''Credit_Facility_Purpose'' = Some vp" "list_all non_str vp" and
    vt: "column d1 ''Credit_Facility_Type'' = Some vt" "list_all non_str vt"
    by blast
  define d2 where "d2 = setitem ''Other_Credit_Facility_Purpose_Desc'' (replicate (nrows df) (PBool True)) d1"
  have r2: "validate_other_credit_facility_purpose_desc d1 = Inr d2"
    using cond_purpose_on_verdicts [OF f1(1) vp] f1(2) by (simp add: d2_def)
  have t2: "column d2 ''Credit_Facility_Type'' = Some vt"
    using vt(1) by (simp add: d2_def column_setitem)
  have "take 81 ?R = take 80 ?R @ [?R ! 80]"
    using take_Suc_conv_app_nth [of 80 ?R] by (simp add: registry_length)
  then have "run_rules (take 81 ?R) df = Inr d2"
    by (simp add: run_rules_append r1 r2 registry_nth)
  with t2 vt(2) show ?thesis by blast
qed

lemma sample_frame_alone:
  "validate_other_credit_facility_type_desc sample_frame
     = Inr (setitem ''Other_Credit_Facility_Desc'' [PBool False, PBool True] sample_frame)"
proof -
  have ne: "columns sample_frame \<noteq> []"
    using sample_frame_columns(1) by (auto simp: column_def)
  have u: "[0..<2] = [0, Suc 0]" by (simp add: upt_rec)
  have sp: "py_strip ''   '' = []" "py_strip ''n/a'' \<noteq> []"
    by (simp_all add: py_strip_def is_space_def code_def)
  show ?thesis
    unfolding validate_other_credit_facility_type_desc_def assign_applied_def apply_axis1_def
    by (simp add: sample_frame_props(2) ne u row_at_column sample_frame_columns sp)
qed

text \<open>
  Claim C2 (a defect of the code). The claim wants the verdict of the
  Other-Credit-Facility-Type-Description rule to be true iff the raw
  \<open>Credit_Facility_Type\<close> is not \<^verbatim>\<open>"0"\<close> or the description is not blank, the raw
  value being still in place when the rule runs. In the registry the rule is entry 81
  and \<^verbatim>\<open>validate_credit_facility_type\<close> is entry 22: when the rule runs the column
  holds verdicts and no string, so on every data set with the source columns the rule
  writes true in every row.
\<close>

theorem other_desc_sees_verdicts:
  "wf_frame df \<and> set SOURCE_COLUMNS \<subseteq> set (colnames df) \<longrightarrow>
     CORPORATE_LOAN_RULES E ! 81 = validate_other_credit_facility_type_desc
     \<and> (\<exists>d vs. run_rules (take 81 (CORPORATE_LOAN_RULES E)) df = Inr d
           \<and> column d ''Credit_Facility_Type'' = Some vs \<and> list_all non_str vs)
     \<and> (\<exists>df'. run_rules (CORPORATE_LOAN_RULES E) df = Inr df'
           \<and> column df' ''Other_Credit_Facility_Desc'' = Some (replicate (nrows df) (PBool True)))"
  using registry_before_type_desc [of df E] registry_run [of df E]
  by (auto simp: registry_nth)

text \<open>
  The failing input: in the first row of \<open>sample_frame\<close> the type is \<^verbatim>\<open>"0"\<close> and the
  description is blank. The rule alone, on the raw data, writes false there; the
  registry writes true.
\<close>

theorem other_desc_sees_verdicts_witness:
  "column sample_frame ''Credit_Facility_Type'' = Some [PStr ''0'', PStr ''x'']
   \<and> column sample_frame ''Other_Credit_Facility_Type_Description'' = Some [PStr ''   '', PStr ''n/a'']
   \<and> validate_other_credit_facility_type_desc sample_frame
       = Inr (setitem ''Other_Credit_Facility_Desc'' [PBool False, PBool True] sample_frame)
   \<and> (\<exists>df'. run_rules (CORPORATE_LOAN_RULES (demo_env (2024, 6, 14))) sample_frame = Inr df'
         \<and> column df' ''Other_Credit_Facility_Desc'' = Some [PBool True, PBool True])"
  using other_desc_sees_verdicts [of sample_frame "demo_env (2024, 6, 14)"]
  by (simp add: sample_frame_props sample_frame_columns sample_frame_alone numeral_2_eq_2)








section \<open>The effect of one rule, and the pipeline\<close>



text \<open>
  Claim C8 (a defect of the code). The custom-rule step does not apply its rules to the
  table it receives: it returns the empty string, whatever the table. The next statement
  of the pipeline calls \<^verbatim>\<open>apply\<close> on that string, so the pipeline raises for every
  uploaded data set and returns no table at all.
\<close>

theorem pipeline_never_returns:
  "apply_custom_rules df = Str [] \<and> (\<exists>e. profile_upload E df = Inl e)"
  by (simp add: apply_custom_rules_def profile_upload_def split: sum.splits)

text \<open>The theorem at the sample data set: the rules pass and the pipeline raises.\<close>

theorem pipeline_never_returns_witness:
  "(\<exists>d. run_rules (CORPORATE_LOAN_RULES (demo_env (2024, 6, 14))) sample_frame = Inr d)
   \<and> profile_upload (demo_env (2024, 6, 14)) sample_frame = Inl AttributeError"
proof -
  let ?E = "demo_env (2024, 6, 14)"
  from registry_run [OF sample_frame_props(1,3), of ?E]
  obtain d where r: "run_rules (CORPORATE_LOAN_RULES ?E) sample_frame = Inr d" by blast
  from pipeline_never_returns [of d ?E] r
  have "profile_upload ?E sample_frame = Inl AttributeError"
    by (simp add: profile_upload_def)
  with r show ?thesis by blast
qed

section \<open>Enumerated codes\<close>

lemma verdicts_by_assign:
  "(\<And>x. f x = PBool (p x)) \<Longrightarrow> verdicts_by src out p (assign_from src out (map f))"
proof -
  assume "\<And>x. f x = PBool (p x)"
  then have "f = (\<lambda>x. PBool (p x))" by (rule ext)
  then show ?thesis
    by (simp add: verdicts_by_def assign_from_def getitem_def column_def)
qed

lemma str_nat_digit: "n < 10 \<Longrightarrow> str_nat n = [char_of (48 + n)]"
  by (simp add: str_nat.simps)

lemma str_int_small:
  "str_int 0 = ''0''" "str_int 1 = ''1''" "str_int 2 = ''2''" "str_int 3 = ''3''" "str_int 4 = ''4''"
  "str_int 5 = ''5''" "str_int 6 = ''6''" "str_int 7 = ''7''"
  by (simp_all add: str_int_def str_nat_digit char_of_def bit_iff_odd)

lemma set_str_range: "set (str_range a b) = str_int ` {int a..<int b}"
  by (simp add: str_range_def image_image image_int_atLeastLessThan [symmetric])

lemma int_ivl: "{l..<u} = {l..u - 1::int}"
  by auto

lemma set_str_range_int: "set (str_range a b) = str_int ` {int a..int b - 1}"
  by (simp add: set_str_range int_ivl)


text \<open>
  Claim C3, as amended. The rules of the enumerated codes that stringify the value
  (industry code type, credit facility type and purpose, line reported, participation
  flag, lien position, security type, interest rate variability and index, tax status)
  give the verdict true iff the string form of the raw value is the decimal numeral of
  an allowed code. The rules that test the value as it is (special purpose entity flag,
  lower of cost or market flag, prepayment penalty flag, leveraged loan flag,
  disposition flag, syndicated loan flag) give true iff the raw value equals an allowed
  integer as a number; a string never does.
\<close>

theorem enumerated_code_verdicts:
  "verdicts_by ''Industry_Code_Type'' ''Industry_Code_Type''
      (\<lambda>x. py_str E x \<in> str_int ` {1, 2, 3}) (validate_industry_code_type E)
   \<and> verdicts_by ''Credit_Facility_Type'' ''Credit_Facility_Type''
      (\<lambda>x. py_str E x \<in> str_int ` {0..19}) (validate_credit_facility_type E)
   \<and> verdicts_by ''Credit_Facility_Purpose'' ''Credit_Facility_Purpose''
      (\<lambda>x. py_str E x \<in> str_int ` ({0..30} \<union> {33})) (validate_credit_facility_purpose E)
   \<and> verdicts_by ''Line_Reported_on_FR_Y9C'' ''Line_Reported_on_FR_Y9C''
      (\<lambda>x. py_str E x \<in> str_int ` {1..11}) (validate_line_reported_on_fry9c E)
   \<and> verdicts_by ''Participation_Flag'' ''Participation_Flag''
      (\<lambda>x. py_str E x \<in> str_int ` {1, 2, 3, 4, 5}) (validate_participation_flag E)
   \<and> verdicts_by ''Lien_Position'' ''Lien_Position''
      (\<lambda>x. py_str E x \<in> str_int ` {1, 2, 3, 4}) (validate_lien_position E)
   \<and> verdicts_by ''Security_Type'' ''Security_Type''
      (\<lambda>x. py_str E x \<in> str_int ` {0, 1, 2, 3, 4, 5, 6}) (validate_security_type E)
   \<and> verdicts_by ''Interest_Rate_Variability'' ''Interest_Rate_Variability''
      (\<lambda>x. py_str E x \<in> str_int ` {1, 2, 3, 4}) (validate_interest_rate_variability E)
   \<and> verdicts_by ''Interest_Rate_Index'' ''Interest_Rate_Index''
      (\<lambda>x. py_str E x \<in> str_int ` {1, 2, 3, 4, 5, 6, 7}) (validate_interest_rate_index E)
   \<and> verdicts_by ''Tax_Status'' ''Tax_Status''
      (\<lambda>x. py_str E x \<in> str_int ` {1, 2}) (validate_tax_status E)
   \<and> verdicts_by ''Special_Purpose_Entity_Flag'' ''Special_Purpose_Entity_Flag''
      (\<lambda>x. \<exists>k \<in> {1, 2}. eq_int x k) (validate_special_purpose_entity_flag E)
   \<and> verdicts_by ''LOCOM'' ''LOCOM''
      (\<lambda>x. \<exists>k \<in> {1, 2, 3}. eq_int x k) (validate_locom_flag E)
   \<and> verdicts_by ''Prepayment_Penalty_Flag'' ''Prepayment_Penalty_Flag''
      (\<lambda>x. \<exists>k \<in> {1, 2, 3}. eq_int x k) (validate_prepayment_penalty_flag E)
   \<and> verdicts_by ''Leveraged_Loan_Flag'' ''Leveraged_Loan_Flag''
      (\<lambda>x. \<exists>k \<in> {1, 2}. eq_int x k) (validate_leveraged_loan_flag E)
   \<and> verdicts_by ''Disposition_Flag'' ''Disposition_Flag''
      (\<lambda>x. \<exists>k \<in> {0..8}. eq_int x k) (validate_disposition_flag E)
   \<and> verdicts_by ''Syndicated_Loan_Flag'' ''Syndicated_Loan_Flag''
      (\<lambda>x. \<exists>k \<in> {0, 1, 2, 3, 4}. eq_int x k) (validate_syndicated_loan_flag E)
   \<and> (\<forall>s k. \<not> eq_int (PStr s) k)"
proof -
  have d: "set (map int [0..<9]) = {0..8}"
    by (simp add: image_int_atLeastLessThan int_ivl)
  show ?thesis
    unfolding validate_industry_code_type_def validate_credit_facility_type_def
      validate_credit_facility_purpose_def validate_line_reported_on_fry9c_def
      validate_participation_flag_def validate_lien_position_def validate_security_type_def
      validate_interest_rate_variability_def validate_interest_rate_index_def
      validate_tax_status_def validate_special_purpose_entity_flag_def validate_locom_flag_def
      validate_prepayment_penalty_flag_def validate_leveraged_loan_flag_def
      validate_disposition_flag_def validate_syndicated_loan_flag_def
    apply (intro conjI verdicts_by_assign)
    apply (simp_all add: str_isin_def raw_isin_def list_ex_iff str_int_small set_str_range_int d
        image_Un del: set_map)
    done
qed

text \<open>The theorem at a column of tax statuses: the integer 1, the string 2, the float 1.0.\<close>

theorem enumerated_code_verdicts_witness:
  "validate_tax_status (demo_env (2024, 6, 14))
      \<lparr>nrows = 3, columns = [(''Tax_Status'', [PInt 1, PStr ''2'', PFloat (Fin 1)])]\<rparr>
    = Inr \<lparr>nrows = 3, columns = [(''Tax_Status'', [PBool True, PBool True, PBool False])]\<rparr>"
proof -
  let ?E = "demo_env (2024, 6, 14)"
  let ?df = "\<lparr>nrows = 3, columns = [(''Tax_Status'', [PInt 1, PStr ''2'', PFloat (Fin 1)])]\<rparr>"
  from enumerated_code_verdicts [of ?E]
  have "verdicts_by ''Tax_Status'' ''Tax_Status'' (\<lambda>x. py_str ?E x \<in> str_int ` {1, 2}) (validate_tax_status ?E)"
    by blast
  then have "validate_tax_status ?E ?df
    = Inr (setitem ''Tax_Status'' (map (\<lambda>x. PBool (py_str ?E x \<in> str_int ` {1, 2}))
        [PInt 1, PStr ''2'', PFloat (Fin 1)]) ?df)"
    unfolding verdicts_by_def by (simp add: column_def)
  then show ?thesis
    by (simp add: setitem_def str_int_small demo_env_def)
qed

text \<open>
  Against the claim as it is written: the rule of the special purpose entity flag
  gives false for the string \<^verbatim>\<open>"1"\<close>, which is the string form of an allowed code,
  and true for the float 1.0, whose string form \<^verbatim>\<open>1.0\<close> is none.
\<close>

theorem raw_flag_ignores_string_form:
  "validate_special_purpose_entity_flag (demo_env (2024, 6, 14))
      \<lparr>nrows = 2, columns = [(''Special_Purpose_Entity_Flag'', [PStr ''1'', PFloat (Fin 1)])]\<rparr>
    = Inr \<lparr>nrows = 2, columns = [(''Special_Purpose_Entity_Flag'', [PBool False, PBool True])]\<rparr>
   \<and> py_str (demo_env (2024, 6, 14)) (PStr ''1'') \<in> str_int ` {1, 2}
   \<and> py_str (demo_env (2024, 6, 14)) (PFloat (Fin 1)) \<notin> str_int ` {1, 2}"
  by (simp add: validate_special_purpose_entity_flag_def assign_from_def getitem_def setitem_def
      raw_isin_def str_int_small demo_env_def)

section \<open>Dates\<close>

lemma rep_numeral [simp]: "rep (numeral n) r = Seq r (rep (pred_numeral n) r)"
  by (simp add: numeral_eq_Suc)

lemmas date_defs = strptime_ymd_def month_field_def day_field_def nat_of_digits_def digit_val_def
  digit_def code_def days_in_month_def is_leap_def Let_def

lemma strptime_examples:
  "strptime_ymd ''9999-01-01'' = Some (9999, 1, 1)"
  "strptime_ymd ''9999-12-31'' = Some (9999, 12, 31)"
  "strptime_ymd ''2030-01-01'' = Some (2030, 1, 1)"
  "strptime_ymd ''2024-05-01'' = Some (2024, 5, 1)"
  "strptime_ymd ''2024-06-15'' = Some (2024, 6, 15)"
  "strptime_ymd ''2020-02-30'' = None"
  "strptime_ymd ''12-31-2024'' = None"
  by (simp_all add: date_defs)







section \<open>Passes on different days\<close>

lemma column_rule_assign [simp]: "column_rule ([src], out) (assign_from src out g)"
  by (auto simp: column_rule_def)

lemma column_rule_cond [simp]: "column_rule ([g, d], out) r"
  by (simp add: column_rule_def)

lemma registry_column_rules: "list_all2 column_rule RULE_FIELDS (CORPORATE_LOAN_RULES E)"
  unfolding CORPORATE_LOAN_RULES_def RULE_FIELDS_def
  by (simp add: rule_defs)

lemma agree_setitem:
  "agree_except c a b \<Longrightarrow> agree_except c (setitem out vs a) (setitem out vs b)"
  by (simp add: agree_except_def colnames_setitem column_setitem)

lemma agree_setitem_at:
  "agree_except c (setitem c vs d) (setitem c ws d)"
  by (simp add: agree_except_def colnames_setitem column_setitem)

lemma agree_step:
  assumes "r = assign_from src out g" "src \<noteq> c" "agree_except c a b"
    "r a = Inr a'" "r b = Inr b'"
  shows "agree_except c a' b'"
proof -
  from assms(3,2) have "column a src = column b src" by (simp add: agree_except_def)
  then have "getitem src a = getitem src b" by (simp add: getitem_def column_def)
  with assms show ?thesis
    by (auto simp: assign_from_def split: sum.splits intro: agree_setitem)
qed

lemma agree_run:
  assumes "list_all2 column_rule specs rs" "\<forall>fo \<in> set specs. length (fst fo) = 1 \<and> hd (fst fo) \<noteq> c"
    "agree_except c a b" "run_rules rs a = Inr a'" "run_rules rs b = Inr b'"
  shows "agree_except c a' b'"
  using assms
proof (induction specs rs arbitrary: a b rule: list_all2_induct)
  case Nil
  then show ?case by simp
next
  case (Cons fo specs r rs)
  from Cons.prems(3) obtain a1 where a1: "r a = Inr a1" "run_rules rs a1 = Inr a'"
    by (auto split: sum.splits)
  from Cons.prems(4) obtain b1 where b1: "r b = Inr b1" "run_rules rs b1 = Inr b'"
    by (auto split: sum.splits)
  from Cons.hyps(1) Cons.prems(1) obtain g where g: "r = assign_from (hd (fst fo)) (snd fo) g"
    by (auto simp: column_rule_def)
  from Cons.prems(1) have "hd (fst fo) \<noteq> c" by simp
  from agree_step [OF g this Cons.prems(2) a1(1) b1(1)] have "agree_except c a1 b1" .
  with Cons.IH [OF _ this a1(2) b1(2)] Cons.prems(1) show ?case by simp
qed

lemma run_rules_appendD:
  "run_rules (xs @ ys) df = Inr f \<Longrightarrow> \<exists>d. run_rules xs df = Inr d \<and> run_rules ys d = Inr f"
  by (simp add: run_rules_append split: sum.splits)

lemma py_str_today [simp]: "py_str (E\<lparr>today := t\<rparr>) = py_str E"
proof
  fix x show "py_str (E\<lparr>today := t\<rparr>) x = py_str E x" by (cases x) simp_all
qed

lemma py_float_today [simp]: "py_float (E\<lparr>today := t\<rparr>) = py_float E"
proof
  fix x show "py_float (E\<lparr>today := t\<rparr>) x = py_float E x" by (cases x) simp_all
qed

lemma value_ops_today [simp]:
  "str_matches (E\<lparr>today := t\<rparr>) = str_matches E"
  "str_nonblank (E\<lparr>today := t\<rparr>) = str_nonblank E"
  "str_isin (E\<lparr>today := t\<rparr>) = str_isin E"
  "str_isdigit (E\<lparr>today := t\<rparr>) = str_isdigit E"
  "is_na_stripped (E\<lparr>today := t\<rparr>) = is_na_stripped E"
  "isdigit_or_na (E\<lparr>today := t\<rparr>) = isdigit_or_na E"
  "is_valid_rate (E\<lparr>today := t\<rparr>) = is_valid_rate E"
  "is_valid_spread (E\<lparr>today := t\<rparr>) = is_valid_spread E"
  "is_valid_ceiling (E\<lparr>today := t\<rparr>) = is_valid_ceiling E"
  "is_valid_floor (E\<lparr>today := t\<rparr>) = is_valid_floor E"
  "is_valid_pd (E\<lparr>today := t\<rparr>) = is_valid_pd E"
  "is_valid_lgd (E\<lparr>today := t\<rparr>) = is_valid_lgd E"
  "is_valid_ead (E\<lparr>today := t\<rparr>) = is_valid_ead E"
  "is_valid_date_renewal (E\<lparr>today := t\<rparr>) = is_valid_date_renewal E"
  "is_valid_participation (E\<lparr>today := t\<rparr>) = is_valid_participation E"
  "is_valid_target_hold (E\<lparr>today := t\<rparr>) = is_valid_target_hold E"
  "na_or_integer (E\<lparr>today := t\<rparr>) = na_or_integer E"
  "lei_or_na (E\<lparr>today := t\<rparr>) = lei_or_na E"
  "to_datetime_notna_col (E\<lparr>today := t\<rparr>) = to_datetime_notna_col E"
  by (intro ext, simp add: str_matches_def str_nonblank_def str_isin_def str_isdigit_def
      is_na_stripped_def isdigit_or_na_def is_valid_rate_def is_valid_spread_def
      is_valid_ceiling_def is_valid_floor_def is_valid_pd_def is_valid_lgd_def is_valid_ead_def
      is_valid_date_renewal_def is_valid_participation_def is_valid_target_hold_def
      na_or_integer_def lei_or_na_def to_datetime_notna_col_def
      split: option.splits)+

lemma registry_today:
  "take 79 (CORPORATE_LOAN_RULES (E\<lparr>today := t\<rparr>)) = take 79 (CORPORATE_LOAN_RULES E)"
  "drop 80 (CORPORATE_LOAN_RULES (E\<lparr>today := t\<rparr>)) = drop 80 (CORPORATE_LOAN_RULES E)"
  by (simp_all add: CORPORATE_LOAN_RULES_def rule_defs)


lemma fields_upto_origination:
  "\<forall>fo \<in> set (take 79 RULE_FIELDS). length (fst fo) = 1"
  "''Origination_Date'' \<notin> snd ` set (take 79 RULE_FIELDS)"
  "''Credit_Facility_Type'' \<in> snd ` set (take 79 RULE_FIELDS)"
  "''Credit_Facility_Purpose'' \<in> snd ` set (take 79 RULE_FIELDS)"
  by (simp_all add: RULE_FIELDS_def)

lemma fields_after_descriptions:
  "\<forall>fo \<in> set (drop 82 RULE_FIELDS). length (fst fo) = 1 \<and> hd (fst fo) \<noteq> ''Origination_Date''"
  "''Origination_Date'' \<notin> snd ` set (drop 82 RULE_FIELDS)"
  by (simp_all add: RULE_FIELDS_def)

lemma registry_upto_origination:
  assumes wf: "wf_frame df" and cols: "set SOURCE_COLUMNS \<subseteq> set (colnames df)"
  shows "\<exists>d. run_rules (take 79 (CORPORATE_LOAN_RULES E)) df = Inr d \<and> wf_frame d
     \<and> nrows d = nrows df \<and> set (colnames df) \<subseteq> set (colnames d)
     \<and> column d ''Origination_Date'' = column df ''Origination_Date''
     \<and> (\<exists>vp. column d ''Credit_Facility_Purpose'' = Some vp \<and> list_all non_str vp)
     \<and> (\<exists>vt. column d ''Credit_Facility_Type'' = Some vt \<and> list_all non_str vt)"
proof -
  let ?R = "CORPORATE_LOAN_RULES E"
  have mh: "list_all2 rule_meets (take 79 RULE_FIELDS) (take 79 ?R)"
    using registry_meets by (rule list_all2_takeI)
  have ch: "\<forall>fo \<in> set (take 79 RULE_FIELDS). set (fst fo) \<subseteq> set (colnames df)"
    using source_columns_cover [OF cols] by (blast dest: in_set_takeD)
  from run_total [OF mh fields_upto_origination(1) wf ch]
  obtain d where r: "run_rules (take 79 ?R) df = Inr d" by blast
  from run_frame [OF mh wf r] fields_upto_origination(2,3,4) r show ?thesis
    by auto
qed

lemma origination_step:
  assumes "column d ''Origination_Date'' = Some col"
  shows "validate_origination_date E d = Inr (setitem ''Origination_Date''
     (map (\<lambda>x. PBool (is_valid_date_origination E (py_str E x))) col) d)"
  using assms by (simp add: validate_origination_date_def assign_from_def getitem_def column_def)

lemma registry_from_origination:
  assumes wf: "wf_frame d" and cols: "set SOURCE_COLUMNS \<subseteq> set (colnames d)"
    and vp: "column d ''Credit_Facility_Purpose'' = Some vp" "list_all non_str vp"
    and vt: "column d ''Credit_Facility_Type'' = Some vt" "list_all non_str vt"
    and len: "length vs = nrows d"
  shows "\<exists>f. run_rules (drop 80 (CORPORATE_LOAN_RULES E)) (setitem ''Origination_Date'' vs d) = Inr f
     \<and> run_rules (drop 82 (CORPORATE_LOAN_RULES E))
          (setitem ''Other_Credit_Facility_Desc'' (replicate (nrows d) (PBool True))
            (setitem ''Other_Credit_Facility_Purpose_Desc'' (replicate (nrows d) (PBool True))
              (setitem ''Origination_Date'' vs d))) = Inr f
     \<and> column f ''Origination_Date'' = Some vs"
proof -
  let ?R = "CORPORATE_LOAN_RULES E"
  let ?T = "replicate (nrows d) (PBool True)"
  define a where "a = setitem ''Origination_Date'' vs d"
  define a2 where "a2 = setitem ''Other_Credit_Facility_Purpose_Desc'' ?T a"
  define a3 where "a3 = setitem ''Other_Credit_Facility_Desc'' ?T a2"
  have wa: "wf_frame a" "nrows a = nrows d" unfolding a_def using wf len by (simp_all add: wf_setitem)
  have pa: "column a ''Credit_Facility_Purpose'' = Some vp"
    using vp(1) by (simp add: a_def column_setitem)
  have r2: "validate_other_credit_facility_purpose_desc a = Inr a2"
    using cond_purpose_on_verdicts [OF wa(1) pa vp(2)] wa(2) by (simp add: a2_def)
  have wa2: "wf_frame a2" "nrows a2 = nrows d" unfolding a2_def using wa by (simp_all add: wf_setitem)
  have ta: "column a2 ''Credit_Facility_Type'' = Some vt"
    using vt(1) by (simp add: a2_def a_def column_setitem)
  have r3: "validate_other_credit_facility_type_desc a2 = Inr a3"
    using cond_type_on_verdicts [OF wa2(1) ta vt(2)] wa2(2) by (simp add: a3_def)
  have wa3: "wf_frame a3" unfolding a3_def using wa2 by (simp add: wf_setitem)
  have c3: "set (colnames d) \<subseteq> set (colnames a3)"
    by (auto simp: a3_def a2_def a_def set_colnames_setitem)
  have mt: "list_all2 rule_meets (drop 82 RULE_FIELDS) (drop 82 ?R)"
    using registry_meets by (rule list_all2_dropI)
  have ct: "\<forall>fo \<in> set (drop 82 RULE_FIELDS). set (fst fo) \<subseteq> set (colnames a3)"
    using source_columns_cover [OF cols] c3 by (blast dest: in_set_dropD)
  from run_total [OF mt fields_tail_single wa3 ct]
  obtain f where r4: "run_rules (drop 82 ?R) a3 = Inr f" by blast
  from run_frame [OF mt wa3 r4] fields_after_descriptions(2)
  have "column f ''Origination_Date'' = column a3 ''Origination_Date''" by blast
  then have o: "column f ''Origination_Date'' = Some vs"
    by (simp add: a3_def a2_def a_def column_setitem)
  have "drop 80 ?R = validate_other_credit_facility_purpose_desc
      # validate_other_credit_facility_type_desc # drop 82 ?R"
    by (simp add: CORPORATE_LOAN_RULES_def)
  then have "run_rules (drop 80 ?R) a = Inr f"
    by (simp add: r2 r3 r4)
  with r4 o show ?thesis
    unfolding a3_def a2_def a_def by blast
qed

lemma registry_split_origination:
  "CORPORATE_LOAN_RULES E = take 79 (CORPORATE_LOAN_RULES E)
     @ validate_origination_date E # drop 80 (CORPORATE_LOAN_RULES E)"
  by (simp add: CORPORATE_LOAN_RULES_def)

lemma passes_agree:
  assumes wf: "wf_frame df" and cols: "set SOURCE_COLUMNS \<subseteq> set (colnames df)"
    and col: "column df ''Origination_Date'' = Some col"
  shows "\<exists>f1 f2. run_rules (CORPORATE_LOAN_RULES E) df = Inr f1
     \<and> run_rules (CORPORATE_LOAN_RULES (E\<lparr>today := t\<rparr>)) df = Inr f2
     \<and> agree_except ''Origination_Date'' f1 f2
     \<and> column f1 ''Origination_Date''
         = Some (map (\<lambda>x. PBool (is_valid_date_origination E (py_str E x))) col)
     \<and> column f2 ''Origination_Date''
         = Some (map (\<lambda>x. PBool (is_valid_date_origination (E\<lparr>today := t\<rparr>) (py_str E x))) col)"
proof -
  let ?E' = "E\<lparr>today := t\<rparr>"
  let ?R = "CORPORATE_LOAN_RULES E"
  let ?R' = "CORPORATE_LOAN_RULES ?E'"
  let ?OD = "''Origination_Date''"
  from registry_upto_origination [OF wf cols, of E] col obtain d vp vt where
    d: "run_rules (take 79 ?R) df = Inr d" "wf_frame d" "nrows d = nrows df"
      "set (colnames df) \<subseteq> set (colnames d)" "column d ?OD = Some col"
      "column d ''Credit_Facility_Purpose'' = Some vp" "list_all non_str vp"
      "column d ''Credit_Facility_Type'' = Some vt" "list_all non_str vt"
    by auto
  define v1 where "v1 = map (\<lambda>x. PBool (is_valid_date_origination E (py_str E x))) col"
  define v2 where "v2 = map (\<lambda>x. PBool (is_valid_date_origination ?E' (py_str E x))) col"
  from d(2,5) have lc: "length col = nrows d" by (rule wf_column)
  then have l: "length v1 = nrows d" "length v2 = nrows d" by (simp_all add: v1_def v2_def)
  from cols d(4) have cd: "set SOURCE_COLUMNS \<subseteq> set (colnames d)" by blast
  let ?T = "replicate (nrows d) (PBool True)"
  let ?a = "\<lambda>vs. setitem ''Other_Credit_Facility_Desc'' ?T
            (setitem ''Other_Credit_Facility_Purpose_Desc'' ?T (setitem ?OD vs d))"
  from registry_from_origination [OF d(2) cd d(6,7,8,9) l(1), of E] obtain f1 where
    f1: "run_rules (drop 80 ?R) (setitem ?OD v1 d) = Inr f1" "run_rules (drop 82 ?R) (?a v1) = Inr f1"
      "column f1 ?OD = Some v1"
    by blast
  from registry_from_origination [OF d(2) cd d(6,7,8,9) l(2), of E] obtain f2 where
    f2: "run_rules (drop 80 ?R) (setitem ?OD v2 d) = Inr f2" "run_rules (drop 82 ?R) (?a v2) = Inr f2"
      "column f2 ?OD = Some v2"
    by blast
  have s1: "validate_origination_date E d = Inr (setitem ?OD v1 d)"
    using origination_step [OF d(5), of E] by (simp add: v1_def)
  have s2: "validate_origination_date ?E' d = Inr (setitem ?OD v2 d)"
    using origination_step [OF d(5), of ?E'] by (simp add: v2_def)
  have r1: "run_rules ?R df = Inr f1"
    by (subst registry_split_origination) (simp add: run_rules_append d(1) s1 f1(1))
  have r2: "run_rules ?R' df = Inr f2"
    by (subst registry_split_origination) (simp add: run_rules_append registry_today d(1) s2 f2(1))
  have "agree_except ?OD (?a v1) (?a v2)"
    by (intro agree_setitem agree_setitem_at)
  moreover have "list_all2 column_rule (drop 82 RULE_FIELDS) (drop 82 ?R)"
    using registry_column_rules by (rule list_all2_dropI)
  ultimately have "agree_except ?OD f1 f2"
    using agree_run [OF _ fields_after_descriptions(1) _ f1(2) f2(2)] by blast
  with r1 r2 f1(3) f2(3) show ?thesis
    unfolding v1_def v2_def by blast
qed


lemma same_library_today: "same_library E1 E2 \<Longrightarrow> E2 = E1\<lparr>today := today E2\<rparr>"
  by (cases E1, cases E2) (simp add: same_library_def)

text \<open>
  Claim C5, as amended. Two passes of the registry over the same data set, made with
  the same library and possibly on different days, both return, with the same rows and
  the same columns, and agree on every column but \<open>Origination_Date\<close>, whose verdicts
  compare the date with the day of the pass; two passes on the same day give identical
  results.
\<close>

theorem passes_agree_but_for_the_day:
  "wf_frame df \<and> set SOURCE_COLUMNS \<subseteq> set (colnames df) \<and> same_library E1 E2 \<longrightarrow>
     (\<exists>f1 f2. run_rules (CORPORATE_LOAN_RULES E1) df = Inr f1
        \<and> run_rules (CORPORATE_LOAN_RULES E2) df = Inr f2
        \<and> nrows f1 = nrows f2 \<and> colnames f1 = colnames f2
        \<and> (\<forall>c. c \<noteq> ''Origination_Date'' \<longrightarrow> column f1 c = column f2 c)
        \<and> (today E1 = today E2 \<longrightarrow> f1 = f2))"
proof (intro impI, elim conjE)
  assume wf: "wf_frame df" and cols: "set SOURCE_COLUMNS \<subseteq> set (colnames df)"
    and lib: "same_library E1 E2"
  from cols source_columns_mem(3) have "''Origination_Date'' \<in> set (colnames df)" by blast
  then obtain col where col: "column df ''Origination_Date'' = Some col"
    using getitem_present [of "''Origination_Date''" df] by blast
  from same_library_today [OF lib] have e: "E2 = E1\<lparr>today := today E2\<rparr>" .
  from passes_agree [OF wf cols col, of E1 "today E2"] e obtain f1 f2 where
    f: "run_rules (CORPORATE_LOAN_RULES E1) df = Inr f1"
       "run_rules (CORPORATE_LOAN_RULES E2) df = Inr f2"
       "agree_except ''Origination_Date'' f1 f2"
    by auto
  have "f1 = f2" if "today E1 = today E2"
  proof -
    from that have "E1\<lparr>today := today E2\<rparr> = E1" by (cases E1) simp
    with e have "E2 = E1" by simp
    with f(1,2) show ?thesis by simp
  qed
  with f show "\<exists>f1 f2. run_rules (CORPORATE_LOAN_RULES E1) df = Inr f1
        \<and> run_rules (CORPORATE_LOAN_RULES E2) df = Inr f2
        \<and> nrows f1 = nrows f2 \<and> colnames f1 = colnames f2
        \<and> (\<forall>c. c \<noteq> ''Origination_Date'' \<longrightarrow> column f1 c = column f2 c)
        \<and> (today E1 = today E2 \<longrightarrow> f1 = f2)"
    unfolding agree_except_def by blast
qed

text \<open>The theorem at the sample data set, for passes on 14 and on 16 June 2024.\<close>

theorem passes_agree_but_for_the_day_witness:
  "\<exists>f1 f2. run_rules (CORPORATE_LOAN_RULES (demo_env (2024, 6, 14))) sample_frame = Inr f1
     \<and> run_rules (CORPORATE_LOAN_RULES (demo_env (2024, 6, 16))) sample_frame = Inr f2
     \<and> nrows f1 = nrows f2 \<and> colnames f1 = colnames f2
     \<and> column f1 ''Customer_ID'' = column f2 ''Customer_ID''"
proof -
  have "same_library (demo_env (2024, 6, 14)) (demo_env (2024, 6, 16))"
    by (simp add: same_library_def demo_env_def)
  with passes_agree_but_for_the_day [of sample_frame "demo_env (2024, 6, 14)" "demo_env (2024, 6, 16)"]
    sample_frame_props(1,3)
  obtain f1 f2 where
    "run_rules (CORPORATE_LOAN_RULES (demo_env (2024, 6, 14))) sample_frame = Inr f1"
    "run_rules (CORPORATE_LOAN_RULES (demo_env (2024, 6, 16))) sample_frame = Inr f2"
    "nrows f1 = nrows f2" "colnames f1 = colnames f2"
    "\<forall>c. c \<noteq> ''Origination_Date'' \<longrightarrow> column f1 c = column f2 c"
    by blast
  moreover from this have "column f1 ''Customer_ID'' = column f2 ''Customer_ID''" by simp
  ultimately show ?thesis by blast
qed

text \<open>
  Against the claim as it is written: the sample data set has the origination date
  2024-06-15 in its first row; the pass of 14 June 2024 gives it the verdict false and
  the pass of 16 June 2024 the verdict true.
\<close>

theorem passes_differ_across_days:
  "\<exists>f1 f2. run_rules (CORPORATE_LOAN_RULES (demo_env (2024, 6, 14))) sample_frame = Inr f1
     \<and> run_rules (CORPORATE_LOAN_RULES (demo_env (2024, 6, 16))) sample_frame = Inr f2
     \<and> column f1 ''Origination_Date'' = Some [PBool False, PBool False]
     \<and> column f2 ''Origination_Date'' = Some [PBool True, PBool False]"
proof -
  have e: "(demo_env (2024, 6, 14))\<lparr>today := (2024, 6, 16)\<rparr> = demo_env (2024, 6, 16)"
    by (simp add: demo_env_def)
  have t: "today (demo_env d) = d" for d by (simp add: demo_env_def)
  from passes_agree [OF sample_frame_props(1,3) sample_frame_columns(3),
      of "demo_env (2024, 6, 14)" "(2024, 6, 16)"]
  have "\<exists>f1 f2. run_rules (CORPORATE_LOAN_RULES (demo_env (2024, 6, 14))) sample_frame = Inr f1
     \<and> run_rules (CORPORATE_LOAN_RULES (demo_env (2024, 6, 16))) sample_frame = Inr f2
     \<and> agree_except ''Origination_Date'' f1 f2
     \<and> column f1 ''Origination_Date'' = Some [PBool False, PBool False]
     \<and> column f2 ''Origination_Date'' = Some [PBool True, PBool False]"
    unfolding e
    by (simp add: is_valid_date_origination_def strptime_examples date_le_def t)
  then show ?thesis by blast
qed

end
